theory Spec2Isabelle
  imports Complex_Main
begin

section \<open>Numbers, vectors and the three.js operations the game calls\<close>

text \<open>
  The game is TypeScript on three.js and React. Its numbers are IEEE doubles; here a
  finite number is a real (arithmetic without rounding). The one place where the
  source can leave the finite numbers is the division by \<open>dist\<close> in the player's
  obstacle loop, so the candidate coordinates of that loop are values of type
  \<open>number\<close>, which adds JavaScript's NaN.
\<close>

datatype number = Num real | NaN

record Vector3 =
  vx :: real
  vy :: real
  vz :: real

record Quaternion =
  qx :: real
  qy :: real
  qz :: real
  qw :: real

text \<open>\<open>THREE.Vector3\<close>: \<open>subVectors\<close>, \<open>add\<close>, \<open>multiplyScalar\<close>, \<open>divideScalar\<close>,
  \<open>length\<close>, \<open>distanceTo\<close>, \<open>lerp\<close>. The library is not part of the repository; these
  are its operations as documented. \<open>divideScalar(s)\<close> multiplies by \<open>1 / s\<close>, which
  over the reals divides each component by \<open>s\<close>.\<close>

definition subVectors :: "Vector3 \<Rightarrow> Vector3 \<Rightarrow> Vector3" where
  "subVectors a b = \<lparr>vx = vx a - vx b, vy = vy a - vy b, vz = vz a - vz b\<rparr>"

definition addVector :: "Vector3 \<Rightarrow> Vector3 \<Rightarrow> Vector3" where
  "addVector a b = \<lparr>vx = vx a + vx b, vy = vy a + vy b, vz = vz a + vz b\<rparr>"

definition multiplyScalar :: "Vector3 \<Rightarrow> real \<Rightarrow> Vector3" where
  "multiplyScalar v s = \<lparr>vx = vx v * s, vy = vy v * s, vz = vz v * s\<rparr>"

definition divideScalar :: "Vector3 \<Rightarrow> real \<Rightarrow> Vector3" where
  "divideScalar v s = \<lparr>vx = vx v / s, vy = vy v / s, vz = vz v / s\<rparr>"

definition vlength :: "Vector3 \<Rightarrow> real" where
  "vlength v = sqrt (vx v * vx v + vy v * vy v + vz v * vz v)"

text \<open>\<open>normalize()\<close> is \<open>this.divideScalar(this.length() || 1)\<close>: a vector of
  length zero is divided by one and stays the zero vector.\<close>

definition normalize :: "Vector3 \<Rightarrow> Vector3" where
  "normalize v = divideScalar v (if vlength v = 0 then 1 else vlength v)"

definition distanceTo :: "Vector3 \<Rightarrow> Vector3 \<Rightarrow> real" where
  "distanceTo a b = vlength (subVectors a b)"

definition lerpVector :: "Vector3 \<Rightarrow> Vector3 \<Rightarrow> real \<Rightarrow> Vector3" where
  "lerpVector a b alpha =
     \<lparr>vx = vx a + (vx b - vx a) * alpha,
      vy = vy a + (vy b - vy a) * alpha,
      vz = vz a + (vz b - vz a) * alpha\<rparr>"

text \<open>\<open>applyQuaternion\<close>, and \<open>applyEuler\<close> for an Euler angle triple in the default
  order XYZ (\<open>Quaternion.setFromEuler\<close> followed by \<open>applyQuaternion\<close>). For a quaternion
  of unit length, which a camera's orientation is, \<open>applyQuaternion\<close> rotates the
  vector.\<close>

definition applyQuaternion :: "Vector3 \<Rightarrow> Quaternion \<Rightarrow> Vector3" where
  "applyQuaternion v q =
     (let tx = 2 * (qy q * vz v - qz q * vy v);
          ty = 2 * (qz q * vx v - qx q * vz v);
          tz = 2 * (qx q * vy v - qy q * vx v)
      in \<lparr>vx = vx v + qw q * tx + qy q * tz - qz q * ty,
          vy = vy v + qw q * ty + qz q * tx - qx q * tz,
          vz = vz v + qw q * tz + qx q * ty - qy q * tx\<rparr>)"

definition setFromEuler :: "real \<Rightarrow> real \<Rightarrow> real \<Rightarrow> Quaternion" where
  "setFromEuler ex ey ez =
     (let c1 = cos (ex / 2); c2 = cos (ey / 2); c3 = cos (ez / 2);
          s1 = sin (ex / 2); s2 = sin (ey / 2); s3 = sin (ez / 2)
      in \<lparr>qx = s1 * c2 * c3 + c1 * s2 * s3,
          qy = c1 * s2 * c3 - s1 * c2 * s3,
          qz = c1 * c2 * s3 + s1 * s2 * c3,
          qw = c1 * c2 * c3 - s1 * s2 * s3\<rparr>)"

definition applyEuler :: "Vector3 \<Rightarrow> real \<Rightarrow> real \<Rightarrow> real \<Rightarrow> Vector3" where
  "applyEuler v ex ey ez = applyQuaternion v (setFromEuler ex ey ez)"

text \<open>\<open>THREE.MathUtils.clamp(value, min, max)\<close> and JavaScript's \<open>Number(b)\<close> of a
  boolean.\<close>

definition clamp :: "real \<Rightarrow> real \<Rightarrow> real \<Rightarrow> real" where
  "clamp v lo hi = max lo (min hi v)"

definition Number :: "bool \<Rightarrow> real" where
  "Number b = (if b then 1 else 0)"

section \<open>The player (component \<open>Player\<close>, src/components/Player.tsx)\<close>

definition WALK_SPEED :: real where "WALK_SPEED = 5"
definition SPRINT_SPEED :: real where "SPRINT_SPEED = 9"
definition JUMP_FORCE :: real where "JUMP_FORCE = 8.5"
definition GRAVITY :: real where "GRAVITY = 22"
definition GROUND_Y :: real where "GROUND_Y = 1.7"
definition WORLD_BOUNDARY :: real where "WORLD_BOUNDARY = 98.5"
definition WIN_ZONE_POSITION :: Vector3 where
  "WIN_ZONE_POSITION = \<lparr>vx = 0, vy = 0, vz = -40\<rparr>"
definition WIN_DISTANCE :: real where "WIN_DISTANCE = 5"
definition PLAYER_RADIUS :: real where "PLAYER_RADIUS = 0.6"
definition FOOTSTEP_INTERVAL_WALK :: real where "FOOTSTEP_INTERVAL_WALK = 0.42"
definition FOOTSTEP_INTERVAL_SPRINT :: real where "FOOTSTEP_INTERVAL_SPRINT = 0.28"

text \<open>An obstacle as the player reads it: \<open>position\<close> is the triple \<open>[x, 0, z]\<close> and
  \<open>radius\<close> the collision radius. Its \<open>id\<close>, \<open>type\<close> and \<open>scale\<close> are read by the
  renderer only.\<close>

record Obstacle =
  opos :: "real \<times> real \<times> real"
  radius :: real

text \<open>The camera the two actors share (\<open>useThree().camera\<close>). The player writes its
  position; the pointer-lock controls write its orientation, which the player reads as
  \<open>rotation.y\<close> and the monster as \<open>quaternion\<close>.\<close>

record Camera =
  position :: Vector3
  rotation_y :: real
  quaternion :: Quaternion

record MoveState =
  forward :: bool
  backward :: bool
  left :: bool
  right :: bool
  sprint :: bool
  jump :: bool

text \<open>The mutable state of the \<open>Player\<close> component: the camera and its refs.
  \<open>footstepAudio\<close> tells whether the audio element has been created.\<close>

record Player =
  camera :: Camera
  moveState :: MoveState
  velocity :: Vector3
  verticalVelocity :: real
  isGrounded :: bool
  footstepTimer :: real
  footstepAudio :: bool

record PlayerProps =
  p_active :: bool
  p_isScaring :: bool
  p_obstacles :: "Obstacle list"
  p_soundVolume :: real
  p_canWin :: bool

text \<open>What one frame of the player emits: the volume of a footstep that was played
  and whether \<open>onWin\<close> was called.\<close>

record PlayerEvents =
  stepPlayed :: "real option"
  winCalled :: bool

definition noPlayerEvents :: PlayerEvents where
  "noPlayerEvents = \<lparr>stepPlayed = None, winCalled = False\<rparr>"

text \<open>X-Z movement: the target velocity from the keys, blended into the velocity.\<close>

definition inputDirection :: "MoveState \<Rightarrow> real \<Rightarrow> Vector3" where
  "inputDirection ms yaw =
     (let isMoving = forward ms \<or> backward ms \<or> left ms \<or> right ms;
          isSprinting = isMoving \<and> sprint ms;
          currentSpeed = (if isSprinting then SPRINT_SPEED else WALK_SPEED);
          frontVector = \<lparr>vx = 0, vy = 0, vz = Number (backward ms) - Number (forward ms)\<rparr>;
          sideVector = \<lparr>vx = Number (left ms) - Number (right ms), vy = 0, vz = 0\<rparr>
      in applyEuler
           (multiplyScalar (normalize (subVectors frontVector sideVector)) currentSpeed)
           0 yaw 0)"

definition nextVelocity :: "Player \<Rightarrow> Vector3" where
  "nextVelocity s =
     lerpVector (velocity s) (inputDirection (moveState s) (rotation_y (camera s))) 0.15"

text \<open>Y movement and ground collision: the candidate height, the vertical velocity
  and the grounded flag after the frame.\<close>

definition verticalMotion :: "real \<Rightarrow> Player \<Rightarrow> real \<times> real \<times> bool" where
  "verticalMotion delta s =
     (let vv = (if \<not> isGrounded s then verticalVelocity s - GRAVITY * delta
                else verticalVelocity s);
          nextY = vy (position (camera s)) + vv * delta
      in if nextY \<le> GROUND_Y then (GROUND_Y, 0, True) else (nextY, vv, isGrounded s))"

text \<open>Obstacle collisions: the body of the \<open>for\<close> loop, then the loop. A candidate that
  is NaN fails the comparison \<open>distSq < combRad * combRad\<close> and is left as it is. The
  source divides by \<open>dist\<close> without a test; \<open>dist\<close> is zero only when \<open>dx\<close> and \<open>dz\<close>
  both are, and JavaScript's \<open>0 / 0\<close> is NaN, which the sum and the product keep.\<close>

fun resolveObstacle :: "number \<times> number \<Rightarrow> Obstacle \<Rightarrow> number \<times> number" where
  "resolveObstacle (Num nextX, Num nextZ) obs =
     (let dx = nextX - fst (opos obs);
          dz = nextZ - snd (snd (opos obs));
          distSq = dx * dx + dz * dz;
          combRad = PLAYER_RADIUS + radius obs
      in if distSq < combRad * combRad then
           (let dist = sqrt distSq;
                overlap = combRad - dist
            in if dist = 0 then (NaN, NaN)
               else (Num (nextX + (dx / dist) * overlap), Num (nextZ + (dz / dist) * overlap)))
         else (Num nextX, Num nextZ))"
| "resolveObstacle (nextX, nextZ) obs = (nextX, nextZ)"

fun obstacleCollisions :: "number \<times> number \<Rightarrow> Obstacle list \<Rightarrow> number \<times> number" where
  "obstacleCollisions c [] = c"
| "obstacleCollisions c (obs # rest) = obstacleCollisions (resolveObstacle c obs) rest"

text \<open>The horizontal candidate \<open>(nextX, nextZ)\<close> of a frame, before and after the
  obstacle loop.\<close>

definition movedHorizontal :: "real \<Rightarrow> Player \<Rightarrow> number \<times> number" where
  "movedHorizontal delta s =
     (Num (vx (position (camera s)) + vx (nextVelocity s) * delta),
      Num (vz (position (camera s)) + vz (nextVelocity s) * delta))"

definition nextHorizontal :: "PlayerProps \<Rightarrow> real \<Rightarrow> Player \<Rightarrow> number \<times> number" where
  "nextHorizontal props delta s =
     obstacleCollisions (movedHorizontal delta s) (p_obstacles props)"

text \<open>Bounds check of one axis: \<open>if (Math.abs(next) < WORLD_BOUNDARY) coord = next\<close>.
  The comparison is false for NaN.\<close>

fun boundsCheck :: "real \<Rightarrow> number \<Rightarrow> real" where
  "boundsCheck old (Num v) = (if \<bar>v\<bar> < WORLD_BOUNDARY then v else old)"
| "boundsCheck old NaN = old"

text \<open>Whether a candidate coordinate passes that test.\<close>

fun withinBoundary :: "number \<Rightarrow> bool" where
  "withinBoundary (Num v) = (\<bar>v\<bar> < WORLD_BOUNDARY)"
| "withinBoundary NaN = False"

text \<open>One call of the player's \<open>useFrame\<close> callback with frame time \<open>delta\<close>. The
  copy of the camera position into the body group and the flashlight animation at the
  end of the callback are for the renderer and are left out.\<close>

definition playerFrame :: "PlayerProps \<Rightarrow> real \<Rightarrow> Player \<Rightarrow> Player \<times> PlayerEvents" where
  "playerFrame props delta s =
     (if \<not> p_active props \<or> p_isScaring props then
        (s\<lparr>velocity := \<lparr>vx = 0, vy = 0, vz = 0\<rparr>\<rparr>, noPlayerEvents)
      else
        (let ms = moveState s;
             isMoving = forward ms \<or> backward ms \<or> left ms \<or> right ms;
             isSprinting = isMoving \<and> sprint ms;
             vel = nextVelocity s;
             (nextY, vv, grounded) = verticalMotion delta s;
             (nextX, nextZ) = nextHorizontal props delta s;
             pos = \<lparr>vx = boundsCheck (vx (position (camera s))) nextX,
                    vy = nextY,
                    vz = boundsCheck (vz (position (camera s))) nextZ\<rparr>;
             won = (p_canWin props \<and> distanceTo pos WIN_ZONE_POSITION < WIN_DISTANCE);
             stepDue = (isMoving \<and> grounded \<and>
                footstepTimer s + delta \<ge>
                  (if isSprinting then FOOTSTEP_INTERVAL_SPRINT else FOOTSTEP_INTERVAL_WALK));
             timer = (if isMoving \<and> grounded
                      then (if stepDue then 0 else footstepTimer s + delta)
                      else footstepTimer s);
             step = (if stepDue \<and> footstepAudio s
                     then Some (p_soundVolume props * (if isSprinting then 0.7 else 0.4))
                     else None)
         in (s\<lparr>camera := (camera s)\<lparr>position := pos\<rparr>,
               velocity := vel,
               verticalVelocity := vv,
               isGrounded := grounded,
               footstepTimer := timer\<rparr>,
             \<lparr>stepPlayed = step, winCalled = won\<rparr>)))"

text \<open>The keyboard handlers. \<open>handleKeyDown\<close> closes over the props \<open>active\<close> and
  \<open>isScaring\<close>; it returns the state and what it asked of the orchestrator.\<close>

datatype KeyCode = KeyW | KeyS | KeyA | KeyD | ShiftLeft | Space | KeyF | KeyE | OtherKey

datatype KeyRequest = NoRequest | ToggleFlashlight | Interact

fun pressKey :: "KeyCode \<Rightarrow> Player \<Rightarrow> Player \<times> KeyRequest" where
  "pressKey KeyW s = (s\<lparr>moveState := (moveState s)\<lparr>forward := True\<rparr>\<rparr>, NoRequest)"
| "pressKey KeyS s = (s\<lparr>moveState := (moveState s)\<lparr>backward := True\<rparr>\<rparr>, NoRequest)"
| "pressKey KeyA s = (s\<lparr>moveState := (moveState s)\<lparr>left := True\<rparr>\<rparr>, NoRequest)"
| "pressKey KeyD s = (s\<lparr>moveState := (moveState s)\<lparr>right := True\<rparr>\<rparr>, NoRequest)"
| "pressKey ShiftLeft s = (s\<lparr>moveState := (moveState s)\<lparr>sprint := True\<rparr>\<rparr>, NoRequest)"
| "pressKey Space s =
     (if isGrounded s then s\<lparr>verticalVelocity := JUMP_FORCE, isGrounded := False\<rparr> else s,
      NoRequest)"
| "pressKey KeyF s = (s, ToggleFlashlight)"
| "pressKey KeyE s = (s, Interact)"
| "pressKey OtherKey s = (s, NoRequest)"

definition handleKeyDown :: "PlayerProps \<Rightarrow> KeyCode \<Rightarrow> Player \<Rightarrow> Player \<times> KeyRequest" where
  "handleKeyDown props code s =
     (if \<not> p_active props \<or> p_isScaring props then (s, NoRequest) else pressKey code s)"

fun handleKeyUp :: "KeyCode \<Rightarrow> Player \<Rightarrow> Player" where
  "handleKeyUp KeyW s = s\<lparr>moveState := (moveState s)\<lparr>forward := False\<rparr>\<rparr>"
| "handleKeyUp KeyS s = s\<lparr>moveState := (moveState s)\<lparr>backward := False\<rparr>\<rparr>"
| "handleKeyUp KeyA s = s\<lparr>moveState := (moveState s)\<lparr>left := False\<rparr>\<rparr>"
| "handleKeyUp KeyD s = s\<lparr>moveState := (moveState s)\<lparr>right := False\<rparr>\<rparr>"
| "handleKeyUp ShiftLeft s = s\<lparr>moveState := (moveState s)\<lparr>sprint := False\<rparr>\<rparr>"
| "handleKeyUp code s = s"

text \<open>What happens to the player during a session: frames, key events, and the
  pointer-lock controls turning the camera. \<open>playerRun\<close> applies them in order.\<close>

datatype PlayerStep =
    Frame PlayerProps real
  | KeyDown PlayerProps KeyCode
  | KeyUp KeyCode
  | Look real Quaternion

fun playerStep :: "PlayerStep \<Rightarrow> Player \<Rightarrow> Player" where
  "playerStep (Frame props delta) s = fst (playerFrame props delta s)"
| "playerStep (KeyDown props code) s = fst (handleKeyDown props code s)"
| "playerStep (KeyUp code) s = handleKeyUp code s"
| "playerStep (Look yaw q) s = s\<lparr>camera := (camera s)\<lparr>rotation_y := yaw, quaternion := q\<rparr>\<rparr>"

fun playerRun :: "PlayerStep list \<Rightarrow> Player \<Rightarrow> Player" where
  "playerRun [] s = s"
| "playerRun (e # es) s = playerRun es (playerStep e s)"

text \<open>The player is inside the world boundary on both horizontal axes.\<close>

definition insideWorld :: "Player \<Rightarrow> bool" where
  "insideWorld s \<longleftrightarrow>
     \<bar>vx (position (camera s))\<bar> < WORLD_BOUNDARY \<and> \<bar>vz (position (camera s))\<bar> < WORLD_BOUNDARY"

text \<open>The horizontal distance from a point to an obstacle's centre.\<close>

definition horizontalDistance :: "Vector3 \<Rightarrow> Obstacle \<Rightarrow> real" where
  "horizontalDistance p obs =
     sqrt ((vx p - fst (opos obs)) * (vx p - fst (opos obs)) +
           (vz p - snd (snd (opos obs))) * (vz p - snd (snd (opos obs))))"

text \<open>The collision circles of two obstacles (of radius \<open>PLAYER_RADIUS + radius\<close> about
  the obstacle's position, the region the loop pushes the player out of) do not
  overlap.\<close>

definition collisionCirclesApart :: "Obstacle \<Rightarrow> Obstacle \<Rightarrow> bool" where
  "collisionCirclesApart a b \<longleftrightarrow>
     \<bar>PLAYER_RADIUS + radius a\<bar> + \<bar>PLAYER_RADIUS + radius b\<bar> \<le>
       sqrt ((fst (opos a) - fst (opos b)) * (fst (opos a) - fst (opos b)) +
             (snd (snd (opos a)) - snd (snd (opos b))) * (snd (snd (opos a)) - snd (snd (opos b))))"

section \<open>The monster (component \<open>Monster\<close>, src/unnamed/part_000)\<close>

definition FOOTSTEP_INTERVAL_BASE :: real where "FOOTSTEP_INTERVAL_BASE = 0.55"
definition MAX_AUDIBLE_DISTANCE :: real where "MAX_AUDIBLE_DISTANCE = 45"
definition BASE_SPEED :: real where "BASE_SPEED = 4.6"
definition CHASE_SPEED :: real where "CHASE_SPEED = 6.8"
definition ATTACK_RANGE :: real where "ATTACK_RANGE = 14"

text \<open>The mutable state of the \<open>Monster\<close> component. \<open>meshRef\<close> is the position of the
  group the ref points to, or \<open>None\<close> while the ref is null. The group's orientation
  and the limbs, body jitter and face light are written for the renderer only, all of
  them after the two early returns of the callback; they are not part of this state.\<close>

record Monster =
  meshRef :: "Vector3 option"
  hasTeleported :: bool
  monsterFootstepTimer :: real
  monsterFootstepAudio :: bool

record MonsterProps =
  m_active :: bool
  m_isScaring :: bool
  m_soundVolume :: real
  m_onDangerUpdate :: bool

text \<open>What one frame of the monster emits: the argument of \<open>onDangerUpdate\<close>, whether
  \<open>onCatch\<close> was called, and the volume of a footstep that was played.\<close>

record MonsterEvents =
  dangerUpdate :: "real option"
  catchCalled :: bool
  monsterStep :: "real option"

definition noMonsterEvents :: MonsterEvents where
  "noMonsterEvents = \<lparr>dangerUpdate = None, catchCalled = False, monsterStep = None\<rparr>"

definition currentSpeed :: "real \<Rightarrow> real" where
  "currentSpeed d = (if d < ATTACK_RANGE then CHASE_SPEED else BASE_SPEED)"

definition dangerLevelAt :: "real \<Rightarrow> real" where
  "dangerLevelAt d = clamp (1 - d / 35) 0 1"

text \<open>The movement of a pursuing frame: the direction is the normalised vector from
  the monster to the camera in three dimensions, of which only the x and z
  components are added to the position.\<close>

definition pursue :: "Vector3 \<Rightarrow> real \<Rightarrow> Vector3 \<Rightarrow> Vector3" where
  "pursue playerPos delta monsterPos =
     (let dist = distanceTo monsterPos playerPos;
          direction = normalize (subVectors playerPos monsterPos)
      in monsterPos\<lparr>vx := vx monsterPos + vx direction * currentSpeed dist * delta,
                     vz := vz monsterPos + vz direction * currentSpeed dist * delta\<rparr>)"

text \<open>The jumpscare placement: the camera position plus 1.2 along the camera's forward
  axis, then \<open>y\<close> overwritten with the camera's \<open>y\<close> minus 1.2.\<close>

definition teleportTarget :: "Camera \<Rightarrow> Vector3" where
  "teleportTarget cam =
     (let fwd = applyQuaternion \<lparr>vx = 0, vy = 0, vz = -1\<rparr> (quaternion cam);
          p = addVector (position cam) (multiplyScalar fwd 1.2)
      in p\<lparr>vy := vy (position cam) - 1.2\<rparr>)"

text \<open>One call of the monster's \<open>useFrame\<close> callback.\<close>

definition monsterFrame ::
  "MonsterProps \<Rightarrow> Camera \<Rightarrow> real \<Rightarrow> Monster \<Rightarrow> Monster \<times> MonsterEvents" where
  "monsterFrame props cam delta m =
     (case meshRef m of
        None \<Rightarrow> (m, noMonsterEvents)
      | Some monsterPos \<Rightarrow>
          if \<not> m_active props then (m, noMonsterEvents)
          else if m_isScaring props then
            (if \<not> hasTeleported m
             then (m\<lparr>meshRef := Some (teleportTarget cam), hasTeleported := True\<rparr>,
                   noMonsterEvents)
             else (m, noMonsterEvents))
          else
            (let playerPos = position cam;
                 dist = distanceTo monsterPos playerPos;
                 stepInterval = FOOTSTEP_INTERVAL_BASE * (BASE_SPEED / currentSpeed dist);
                 stepDue = (monsterFootstepTimer m + delta \<ge> stepInterval);
                 step = (if stepDue \<and> dist < MAX_AUDIBLE_DISTANCE \<and> monsterFootstepAudio m
                         then Some (m_soundVolume props * (1 - dist / MAX_AUDIBLE_DISTANCE) * 0.8)
                         else None)
             in (m\<lparr>meshRef := Some (pursue playerPos delta monsterPos),
                   monsterFootstepTimer :=
                     (if stepDue then 0 else monsterFootstepTimer m + delta)\<rparr>,
                 \<lparr>dangerUpdate =
                    (if m_onDangerUpdate props then Some (dangerLevelAt dist) else None),
                  catchCalled = (dist < 1.9),
                  monsterStep = step\<rparr>)))"

text \<open>The effect that runs when the prop \<open>active\<close> changes (and on mount).\<close>

definition monsterActiveEffect :: "MonsterProps \<Rightarrow> Monster \<Rightarrow> Monster" where
  "monsterActiveEffect props m =
     m\<lparr>monsterFootstepAudio := True,
       hasTeleported := (if \<not> m_active props then False else hasTeleported m)\<rparr>"

text \<open>\<open>n\<close> frames of the monster with the same props, camera and frame time.\<close>

definition monsterFrames :: "MonsterProps \<Rightarrow> Camera \<Rightarrow> real \<Rightarrow> nat \<Rightarrow> Monster \<Rightarrow> Monster" where
  "monsterFrames props cam delta n m = ((\<lambda>k. fst (monsterFrame props cam delta k)) ^^ n) m"

section \<open>The orchestrator (component \<open>App\<close>, second module of src/components/Player.tsx)\<close>

datatype GameState = START | PLAYING | GAMEOVER | WIN

definition TOTAL_CUSTARDS :: nat where "TOTAL_CUSTARDS = 10"
definition BATTERY_DRAIN_RATE :: real where "BATTERY_DRAIN_RATE = 0.8"
definition BATTERY_RECHARGE_RATE :: real where "BATTERY_RECHARGE_RATE = 0.4"

text \<open>The React state of \<open>App\<close> that the actors and the claims read.
  \<open>jumpscareAudio\<close> is \<open>None\<close> while the ref is null, else the number of times \<open>play()\<close>
  was called on the element; \<open>gameOverTimeouts\<close> counts the pending 1600 ms timers
  that \<open>handleCatch\<close> has set.\<close>

record App =
  gameState :: GameState
  flashlightOn :: bool
  battery :: real
  isScaring :: bool
  collectedCount :: nat
  soundVolume :: real
  jumpscareAudio :: "nat option"
  gameOverTimeouts :: nat

text \<open>The callback of the 100 ms interval, which exists only while the game state is
  \<open>PLAYING\<close>.\<close>

definition batteryInterval :: "App \<Rightarrow> App" where
  "batteryInterval s =
     (if gameState s = PLAYING then
        (if flashlightOn s then
           (let next = max 0 (battery s - BATTERY_DRAIN_RATE * 0.1)
            in s\<lparr>battery := next,
                 flashlightOn := (if next = 0 \<and> flashlightOn s then False else flashlightOn s)\<rparr>)
         else s\<lparr>battery := min 100 (battery s + BATTERY_RECHARGE_RATE * 0.1)\<rparr>)
      else s)"

text \<open>\<open>handleCatch\<close> is a \<open>useCallback\<close> closure over \<open>gameState\<close> and \<open>isScaring\<close>:
  its guard tests the values of the render that created the closure (\<open>rendered\<close>),
  while \<open>setIsScaring\<close>, the audio ref and \<open>setTimeout\<close> act on the state as it is when
  the closure is called. The monster holds the closure it was given at that render and
  calls it as \<open>onCatch\<close>.\<close>

definition handleCatch :: "App \<Rightarrow> App \<Rightarrow> App" where
  "handleCatch rendered s =
     (if gameState rendered = PLAYING \<and> \<not> isScaring rendered then
        s\<lparr>isScaring := True,
          jumpscareAudio := map_option Suc (jumpscareAudio s),
          gameOverTimeouts := Suc (gameOverTimeouts s)\<rparr>
      else s)"

text \<open>A timer set by \<open>handleCatch\<close> firing.\<close>

definition gameOverTimeout :: "App \<Rightarrow> App" where
  "gameOverTimeout s =
     (if gameOverTimeouts s = 0 then s
      else s\<lparr>isScaring := False, gameState := GAMEOVER,
             gameOverTimeouts := gameOverTimeouts s - 1\<rparr>)"

text \<open>The props \<open>App\<close> passes to the two actors.\<close>

definition monsterProps :: "App \<Rightarrow> MonsterProps" where
  "monsterProps s =
     \<lparr>m_active = (gameState s = PLAYING \<and> \<not> isScaring s),
      m_isScaring = isScaring s,
      m_soundVolume = soundVolume s,
      m_onDangerUpdate = True\<rparr>"

definition playerProps :: "Obstacle list \<Rightarrow> App \<Rightarrow> PlayerProps" where
  "playerProps worldObstacles s =
     \<lparr>p_active = (gameState s = PLAYING),
      p_isScaring = isScaring s,
      p_obstacles = worldObstacles,
      p_soundVolume = soundVolume s,
      p_canWin = (collectedCount s = TOTAL_CUSTARDS)\<rparr>"

section \<open>Example states\<close>

text \<open>A game in progress with a full battery and the light on.\<close>

definition fullBattery :: App where
  "fullBattery = \<lparr>gameState = PLAYING, flashlightOn = True, battery = 100, isScaring = False,
     collectedCount = 0, soundVolume = 0.8, jumpscareAudio = Some 0, gameOverTimeouts = 0\<rparr>"

text \<open>The player where the canvas puts the camera, standing still.\<close>

definition playerStart :: Player where
  "playerStart =
     \<lparr>camera = \<lparr>position = \<lparr>vx = 0, vy = 1.7, vz = 0\<rparr>, rotation_y = 0,
                 quaternion = \<lparr>qx = 0, qy = 0, qz = 0, qw = 1\<rparr>\<rparr>,
      moveState = \<lparr>forward = False, backward = False, left = False, right = False,
                    sprint = False, jump = False\<rparr>,
      velocity = \<lparr>vx = 0, vy = 0, vz = 0\<rparr>,
      verticalVelocity = 0, isGrounded = True, footstepTimer = 0, footstepAudio = True\<rparr>"

text \<open>The monster where its group is mounted, and at a given place.\<close>

definition monsterStart :: Monster where
  "monsterStart =
     \<lparr>meshRef = Some \<lparr>vx = 60, vy = 0, vz = 60\<rparr>, hasTeleported = False,
      monsterFootstepTimer = 0, monsterFootstepAudio = True\<rparr>"

definition monsterAt :: "real \<Rightarrow> real \<Rightarrow> real \<Rightarrow> Monster" where
  "monsterAt a b c = monsterStart\<lparr>meshRef := Some \<lparr>vx = a, vy = b, vz = c\<rparr>\<rparr>"

text \<open>A monster half a unit from where the player starts.\<close>

definition closeMonster :: Monster where
  "closeMonster = monsterAt 0.5 0 0"

text \<open>Props of a monster that is active with no jumpscare in progress.\<close>

definition pursuing :: MonsterProps where
  "pursuing = \<lparr>m_active = True, m_isScaring = False, m_soundVolume = 0.8,
                m_onDangerUpdate = True\<rparr>"

text \<open>The game state while a jumpscare is in progress.\<close>

definition caught :: App where
  "caught = fullBattery\<lparr>isScaring := True\<rparr>"

text \<open>Props of a player in a game being played, with no obstacles.\<close>

definition playing :: PlayerProps where
  "playing = \<lparr>p_active = True, p_isScaring = False, p_obstacles = [],
               p_soundVolume = 0.8, p_canWin = False\<rparr>"

text \<open>A player standing still at a given place on the ground, and one sliding east
  next to the eastern boundary.\<close>

definition standingAt :: "real \<Rightarrow> real \<Rightarrow> Player" where
  "standingAt a c =
     playerStart\<lparr>camera := (camera playerStart)\<lparr>position := \<lparr>vx = a, vy = 1.7, vz = c\<rparr>\<rparr>\<rparr>"

definition nearEastEdge :: Player where
  "nearEastEdge =
     playerStart\<lparr>camera := (camera playerStart)\<lparr>position := \<lparr>vx = 98.4, vy = 1.7, vz = 0\<rparr>\<rparr>,
                 velocity := \<lparr>vx = 10, vy = 0, vz = 5\<rparr>\<rparr>"

text \<open>Two rocks of the largest size whose circles overlap, a tree, and a tree far from
  it.\<close>

definition rockA :: Obstacle where "rockA = \<lparr>opos = (20, 0, 0), radius = 2.4\<rparr>"
definition rockB :: Obstacle where "rockB = \<lparr>opos = (24, 0, 0), radius = 2.4\<rparr>"
definition tree :: Obstacle where "tree = \<lparr>opos = (20, 0, 0), radius = 0.8\<rparr>"
definition farTree :: Obstacle where "farTree = \<lparr>opos = (50, 0, 0), radius = 0.8\<rparr>"

text \<open>The scenario of the spec: the player stands at \<open>(0, 1.7, 0)\<close>, the monster starts
  at \<open>(60, 0, 60)\<close> and pursues with a frame time of 0.016. \<open>chasePosition n\<close> is the
  monster's position after \<open>n\<close> frames, \<open>chaseDistance n\<close> its distance to the player
  then, and \<open>chaseStep n\<close> the length of the move made by frame \<open>n\<close>.\<close>

definition chasePosition :: "nat \<Rightarrow> Vector3" where
  "chasePosition n =
     the (meshRef (monsterFrames pursuing (camera playerStart) 0.016 n monsterStart))"

definition chaseDistance :: "nat \<Rightarrow> real" where
  "chaseDistance n = distanceTo (chasePosition n) (position (camera playerStart))"

definition chaseStep :: "nat \<Rightarrow> real" where
  "chaseStep n = distanceTo (chasePosition (Suc n)) (chasePosition n)"

section \<open>Battery regulation\<close>

lemma batteryInterval_on:
  "gameState s = PLAYING \<Longrightarrow> flashlightOn s \<Longrightarrow>
   batteryInterval s =
     s\<lparr>battery := max 0 (battery s - 0.08),
       flashlightOn := (max 0 (battery s - 0.08) \<noteq> 0)\<rparr>"
  by (simp add: batteryInterval_def BATTERY_DRAIN_RATE_def Let_def)

lemma batteryInterval_off:
  "gameState s = PLAYING \<Longrightarrow> \<not> flashlightOn s \<Longrightarrow>
   batteryInterval s = s\<lparr>battery := min 100 (battery s + 0.04)\<rparr>"
  by (simp add: batteryInterval_def BATTERY_RECHARGE_RATE_def)

lemma drain_run:
  assumes "gameState s = PLAYING" "flashlightOn s" "battery s = 100"
  shows "n \<le> 1250 \<Longrightarrow>
   (batteryInterval ^^ n) s = s\<lparr>battery := 100 - 0.08 * real n, flashlightOn := (n < 1250)\<rparr>"
proof (induction n)
  case 0
  with assms show ?case by simp
next
  case (Suc n)
  let ?t = "s\<lparr>battery := 100 - 0.08 * real n, flashlightOn := True\<rparr>"
  from Suc have run: "(batteryInterval ^^ n) s = ?t" by simp
  have "batteryInterval ?t =
          s\<lparr>battery := 100 - 0.08 * real (Suc n), flashlightOn := (Suc n < 1250)\<rparr>"
  proof (cases "Suc n = 1250")
    case True
    then have "real n = 1249" by simp
    then show ?thesis
      using True assms by (simp add: batteryInterval_on)
  next
    case False
    with Suc.prems have "real n + 1 < 1250" by simp
    then have "100 - 0.08 * real n - (0.08::real) > 0" by simp
    then show ?thesis
      using False Suc.prems assms
      by (simp add: batteryInterval_on max_def algebra_simps add_divide_distrib)
  qed
  with run show ?case by simp
qed

text \<open>
  C8. While the game is being played, a call of the 100 ms interval callback takes 0.08
  from the battery when the light is on and adds 0.04 when it is off, stays within 0
  and 100, and leaves the light on exactly when the new level is not zero. From a full
  battery with the light on, ten calls leave 99.2 with the light on; the light stays on
  for each of the first 1249 calls, and the 1250th brings the level to zero and turns
  the light off.
\<close>

theorem battery_regulation:
  assumes "gameState s = PLAYING" and "0 \<le> battery s" and "battery s \<le> 100"
  shows "(flashlightOn s \<longrightarrow>
            battery (batteryInterval s) = max 0 (battery s - 0.08) \<and>
            flashlightOn (batteryInterval s) = (battery (batteryInterval s) \<noteq> 0)) \<and>
         (\<not> flashlightOn s \<longrightarrow>
            battery (batteryInterval s) = min 100 (battery s + 0.04) \<and>
            \<not> flashlightOn (batteryInterval s)) \<and>
         0 \<le> battery (batteryInterval s) \<and> battery (batteryInterval s) \<le> 100 \<and>
         (battery s = 100 \<and> flashlightOn s \<longrightarrow>
            battery ((batteryInterval ^^ 10) s) = 100 - 0.8 \<and>
            flashlightOn ((batteryInterval ^^ 10) s) \<and>
            (\<forall>n<1250. flashlightOn ((batteryInterval ^^ n) s) \<and>
                       0 < battery ((batteryInterval ^^ n) s)) \<and>
            battery ((batteryInterval ^^ 1250) s) = 0 \<and>
            \<not> flashlightOn ((batteryInterval ^^ 1250) s))"
proof (intro conjI impI)
  assume on: "flashlightOn s"
  show "battery (batteryInterval s) = max 0 (battery s - 0.08)"
    by (simp add: batteryInterval_on [OF assms(1) on])
  show "flashlightOn (batteryInterval s) = (battery (batteryInterval s) \<noteq> 0)"
    by (simp add: batteryInterval_on [OF assms(1) on])
next
  assume off: "\<not> flashlightOn s"
  show "battery (batteryInterval s) = min 100 (battery s + 0.04)"
    by (simp add: batteryInterval_off [OF assms(1) off])
  show "\<not> flashlightOn (batteryInterval s)"
    using off by (simp add: batteryInterval_off [OF assms(1) off])
next
  show "0 \<le> battery (batteryInterval s)"
    using assms
    by (cases "flashlightOn s") (simp_all add: batteryInterval_on batteryInterval_off)
  show "battery (batteryInterval s) \<le> 100"
    using assms
    by (cases "flashlightOn s") (simp_all add: batteryInterval_on batteryInterval_off)
next
  assume full: "battery s = 100 \<and> flashlightOn s"
  note run = drain_run [OF assms(1) conjunct2 [OF full] conjunct1 [OF full]]
  show "battery ((batteryInterval ^^ 10) s) = 100 - 0.8" by (simp add: run)
  show "flashlightOn ((batteryInterval ^^ 10) s)" by (simp add: run)
  show "\<forall>n<1250. flashlightOn ((batteryInterval ^^ n) s) \<and>
                   0 < battery ((batteryInterval ^^ n) s)"
  proof (intro allI impI)
    fix n :: nat assume "n < 1250"
    then have "real n < 1250" by simp
    then have "0 < 100 - 0.08 * real n" by simp
    with \<open>n < 1250\<close> show "flashlightOn ((batteryInterval ^^ n) s) \<and>
                   0 < battery ((batteryInterval ^^ n) s)"
      by (simp add: run)
  qed
  show "battery ((batteryInterval ^^ 1250) s) = 0" by (simp add: run)
  show "\<not> flashlightOn ((batteryInterval ^^ 1250) s)" by (simp add: run)
qed

text \<open>The theorem at a full battery with the light on, and at half charge with the
  light off.\<close>

theorem battery_regulation_witness:
  "battery (batteryInterval fullBattery) = 99.92 \<and>
   flashlightOn (batteryInterval fullBattery) \<and>
   battery ((batteryInterval ^^ 10) fullBattery) = 99.2 \<and>
   flashlightOn ((batteryInterval ^^ 10) fullBattery) \<and>
   flashlightOn ((batteryInterval ^^ 1249) fullBattery) \<and>
   battery ((batteryInterval ^^ 1250) fullBattery) = 0 \<and>
   \<not> flashlightOn ((batteryInterval ^^ 1250) fullBattery) \<and>
   battery (batteryInterval (fullBattery\<lparr>flashlightOn := False, battery := 50\<rparr>)) = 50.04 \<and>
   \<not> flashlightOn (batteryInterval (fullBattery\<lparr>flashlightOn := False, battery := 50\<rparr>))"
  using battery_regulation [of fullBattery]
    battery_regulation [of "fullBattery\<lparr>flashlightOn := False, battery := 50\<rparr>"]
  by (simp add: fullBattery_def)

section \<open>The monster's frame by cases\<close>

lemma monsterFrame_inactive:
  "\<not> m_active props \<Longrightarrow> monsterFrame props cam delta m = (m, noMonsterEvents)"
  by (simp add: monsterFrame_def split: option.splits)

lemma monsterFrame_pursuing:
  "m_active props \<Longrightarrow> \<not> m_isScaring props \<Longrightarrow> meshRef m = Some p \<Longrightarrow>
   monsterFrame props cam delta m =
     (m\<lparr>meshRef := Some (pursue (position cam) delta p),
        monsterFootstepTimer :=
          (if monsterFootstepTimer m + delta \<ge>
                FOOTSTEP_INTERVAL_BASE * (BASE_SPEED / currentSpeed (distanceTo p (position cam)))
           then 0 else monsterFootstepTimer m + delta)\<rparr>,
      \<lparr>dangerUpdate =
         (if m_onDangerUpdate props then Some (dangerLevelAt (distanceTo p (position cam)))
          else None),
       catchCalled = (distanceTo p (position cam) < 1.9),
       monsterStep =
         (if monsterFootstepTimer m + delta \<ge>
               FOOTSTEP_INTERVAL_BASE * (BASE_SPEED / currentSpeed (distanceTo p (position cam)))
             \<and> distanceTo p (position cam) < MAX_AUDIBLE_DISTANCE \<and> monsterFootstepAudio m
          then Some (m_soundVolume props *
                     (1 - distanceTo p (position cam) / MAX_AUDIBLE_DISTANCE) * 0.8)
          else None)\<rparr>)"
  by (simp add: monsterFrame_def Let_def)

lemma monsterFrame_scaring_events:
  "m_isScaring props \<Longrightarrow> snd (monsterFrame props cam delta m) = noMonsterEvents"
  by (simp add: monsterFrame_def split: option.splits)

section \<open>Catching\<close>

text \<open>
  C4. In a frame of a monster that is active, not in a jumpscare and whose group is
  mounted at \<open>p\<close>, \<open>onCatch\<close> is called exactly when the distance in three dimensions
  from \<open>p\<close> to the camera, measured at the start of the frame, is below 1.9. It is never
  called in a frame of an inactive monster, nor in a frame with a jumpscare in progress.
\<close>

theorem catch_iff_within_reach:
  "(m_active props \<and> \<not> m_isScaring props \<and> meshRef m = Some p \<longrightarrow>
      catchCalled (snd (monsterFrame props cam delta m)) =
        (distanceTo p (position cam) < 1.9)) \<and>
   (\<not> m_active props \<longrightarrow> \<not> catchCalled (snd (monsterFrame props cam delta m))) \<and>
   (m_isScaring props \<longrightarrow> \<not> catchCalled (snd (monsterFrame props cam delta m)))"
  by (simp add: monsterFrame_pursuing monsterFrame_inactive monsterFrame_scaring_events
      noMonsterEvents_def)

text \<open>The theorem at distance 1 (caught) and distance 2 (not caught), and with the same
  monster inactive or in a jumpscare.\<close>

theorem catch_iff_within_reach_witness:
  "catchCalled (snd (monsterFrame pursuing (camera playerStart) 0.016 (monsterAt 1 1.7 0))) \<and>
   distanceTo \<lparr>vx = 1, vy = 1.7, vz = 0\<rparr> (position (camera playerStart)) < 1.9 \<and>
   \<not> catchCalled (snd (monsterFrame pursuing (camera playerStart) 0.016 (monsterAt 2 1.7 0))) \<and>
   \<not> distanceTo \<lparr>vx = 2, vy = 1.7, vz = 0\<rparr> (position (camera playerStart)) < 1.9 \<and>
   \<not> catchCalled (snd (monsterFrame (pursuing\<lparr>m_active := False\<rparr>) (camera playerStart)
         0.016 (monsterAt 1 1.7 0))) \<and>
   \<not> catchCalled (snd (monsterFrame (pursuing\<lparr>m_isScaring := True\<rparr>) (camera playerStart)
         0.016 (monsterAt 1 1.7 0)))"
  using catch_iff_within_reach [of pursuing "monsterAt 1 1.7 0" "\<lparr>vx = 1, vy = 1.7, vz = 0\<rparr>"
      "camera playerStart" "0.016"]
    catch_iff_within_reach [of pursuing "monsterAt 2 1.7 0" "\<lparr>vx = 2, vy = 1.7, vz = 0\<rparr>"
      "camera playerStart" "0.016"]
    catch_iff_within_reach [of "pursuing\<lparr>m_active := False\<rparr>" "monsterAt 1 1.7 0"
      "\<lparr>vx = 1, vy = 1.7, vz = 0\<rparr>" "camera playerStart" "0.016"]
    catch_iff_within_reach [of "pursuing\<lparr>m_isScaring := True\<rparr>" "monsterAt 1 1.7 0"
      "\<lparr>vx = 1, vy = 1.7, vz = 0\<rparr>" "camera playerStart" "0.016"]
  by (simp add: pursuing_def monsterAt_def monsterStart_def playerStart_def distanceTo_def
      vlength_def subVectors_def)

section \<open>Danger level\<close>

text \<open>
  C6. A pursuing frame publishes \<open>clamp (1 - dist / 35) 0 1\<close> for the distance \<open>dist\<close>
  from the monster to the camera. As a function of the distance this value lies between
  0 and 1, does not increase when the distance grows, is 1 at distance 0 and is 0 from
  distance 35 on.
\<close>

theorem danger_level_clamped_monotone:
  "(m_active props \<and> \<not> m_isScaring props \<and> m_onDangerUpdate props \<and> meshRef m = Some p \<longrightarrow>
      dangerUpdate (snd (monsterFrame props cam delta m)) =
        Some (clamp (1 - distanceTo p (position cam) / 35) 0 1)) \<and>
   0 \<le> dangerLevelAt d \<and> dangerLevelAt d \<le> 1 \<and>
   (d \<le> d' \<longrightarrow> dangerLevelAt d' \<le> dangerLevelAt d) \<and>
   dangerLevelAt 0 = 1 \<and>
   (35 \<le> d \<longrightarrow> dangerLevelAt d = 0)"
  by (auto simp add: monsterFrame_pursuing dangerLevelAt_def clamp_def)

text \<open>The theorem for a monster 7 units from the camera, and at the distances 0, 1,
  35 and 60.\<close>

theorem danger_level_clamped_monotone_witness:
  "dangerUpdate (snd (monsterFrame pursuing (camera playerStart) 0.016 (monsterAt 7 1.7 0))) =
     Some 0.8 \<and>
   dangerLevelAt 7 \<le> dangerLevelAt 1 \<and> dangerLevelAt 7 = 0.8 \<and>
   dangerLevelAt 0 = 1 \<and> dangerLevelAt 35 = 0 \<and> dangerLevelAt 60 = 0"
proof -
  have "sqrt 49 = 7" by (rule real_sqrt_unique) simp_all
  then show ?thesis
  using danger_level_clamped_monotone [of pursuing "monsterAt 7 1.7 0"
      "\<lparr>vx = 7, vy = 1.7, vz = 0\<rparr>" "camera playerStart" "0.016" 1 7]
    danger_level_clamped_monotone [of pursuing "monsterAt 7 1.7 0"
      "\<lparr>vx = 7, vy = 1.7, vz = 0\<rparr>" "camera playerStart" "0.016" 35 35]
    danger_level_clamped_monotone [of pursuing "monsterAt 7 1.7 0"
      "\<lparr>vx = 7, vy = 1.7, vz = 0\<rparr>" "camera playerStart" "0.016" 60 60]
  by (simp add: pursuing_def monsterAt_def monsterStart_def playerStart_def distanceTo_def
      vlength_def subVectors_def dangerLevelAt_def clamp_def)
qed

section \<open>Early exit\<close>

lemma playerFrame_inactive:
  "\<not> p_active props \<or> p_isScaring props \<Longrightarrow>
   playerFrame props delta s = (s\<lparr>velocity := \<lparr>vx = 0, vy = 0, vz = 0\<rparr>\<rparr>, noPlayerEvents)"
  by (simp add: playerFrame_def)

text \<open>
  C9. A player frame with \<open>active\<close> false or \<open>isScaring\<close> true returns the state with
  the velocity set to zero and everything else as it was (camera position, key state,
  vertical velocity, grounded flag, footstep timer), emits nothing, and a key press in
  that situation is ignored. A monster frame with \<open>active\<close> false returns the state as
  it was and emits nothing. With the props \<open>App\<close> passes, both hold whenever the game
  is not being played or a jumpscare is in progress: \<open>App\<close> gives the monster
  \<open>active = (gameState = PLAYING \<and> \<not> isScaring)\<close>.
\<close>

theorem inactive_actor_short_circuits:
  "(\<not> p_active props \<or> p_isScaring props \<longrightarrow>
      playerFrame props delta s = (s\<lparr>velocity := \<lparr>vx = 0, vy = 0, vz = 0\<rparr>\<rparr>, noPlayerEvents) \<and>
      handleKeyDown props code s = (s, NoRequest)) \<and>
   (\<not> m_active mprops \<longrightarrow> monsterFrame mprops cam delta m = (m, noMonsterEvents)) \<and>
   (gameState a \<noteq> PLAYING \<or> isScaring a \<longrightarrow>
      playerFrame (playerProps obs a) delta s =
        (s\<lparr>velocity := \<lparr>vx = 0, vy = 0, vz = 0\<rparr>\<rparr>, noPlayerEvents) \<and>
      monsterFrame (monsterProps a) cam delta m = (m, noMonsterEvents))"
  by (auto simp add: playerFrame_inactive monsterFrame_inactive handleKeyDown_def
      playerProps_def monsterProps_def)

text \<open>The theorem during a jumpscare: a moving player with a key held is stopped and
  nothing else changes, a press of the space bar is ignored, and the monster is left
  alone.\<close>

theorem inactive_actor_short_circuits_witness:
  "playerFrame (playerProps [] caught) 0.016
       (playerStart\<lparr>velocity := \<lparr>vx = 3, vy = 0, vz = 4\<rparr>,
                    moveState := (moveState playerStart)\<lparr>forward := True\<rparr>\<rparr>) =
     (playerStart\<lparr>moveState := (moveState playerStart)\<lparr>forward := True\<rparr>\<rparr>, noPlayerEvents) \<and>
   handleKeyDown (playerProps [] caught) Space playerStart = (playerStart, NoRequest) \<and>
   monsterFrame (monsterProps caught) (camera playerStart) 0.016 monsterStart =
     (monsterStart, noMonsterEvents) \<and>
   monsterFrame (pursuing\<lparr>m_active := False\<rparr>) (camera playerStart) 0.016 monsterStart =
     (monsterStart, noMonsterEvents)"
  using inactive_actor_short_circuits [of "playerProps [] caught" "0.016"
      "playerStart\<lparr>velocity := \<lparr>vx = 3, vy = 0, vz = 4\<rparr>,
                   moveState := (moveState playerStart)\<lparr>forward := True\<rparr>\<rparr>"
      Space "pursuing\<lparr>m_active := False\<rparr>" "camera playerStart" monsterStart caught "[]"]
    inactive_actor_short_circuits [of "playerProps [] caught" "0.016" playerStart
      Space "pursuing\<lparr>m_active := False\<rparr>" "camera playerStart" monsterStart caught "[]"]
  by (simp add: playerProps_def caught_def fullBattery_def pursuing_def playerStart_def)

section \<open>World boundary\<close>

lemma boundsCheck_within:
  "\<bar>old\<bar> < WORLD_BOUNDARY \<Longrightarrow> \<bar>boundsCheck old c\<bar> < WORLD_BOUNDARY"
  by (cases c) simp_all

lemma boundsCheck_cases:
  "(withinBoundary c \<longrightarrow> Num (boundsCheck old c) = c) \<and>
   (\<not> withinBoundary c \<longrightarrow> boundsCheck old c = old)"
  by (cases c) simp_all

lemma playerFrame_position:
  "p_active props \<Longrightarrow> \<not> p_isScaring props \<Longrightarrow>
   position (camera (fst (playerFrame props delta s))) =
     \<lparr>vx = boundsCheck (vx (position (camera s))) (fst (nextHorizontal props delta s)),
      vy = fst (verticalMotion delta s),
      vz = boundsCheck (vz (position (camera s))) (snd (nextHorizontal props delta s))\<rparr>"
  by (simp add: playerFrame_def Let_def split: prod.splits)

lemma playerFrame_position_inactive:
  "\<not> p_active props \<or> p_isScaring props \<Longrightarrow>
   position (camera (fst (playerFrame props delta s))) = position (camera s)"
  by (simp add: playerFrame_inactive)

lemma pressKey_position: "position (camera (fst (pressKey code s))) = position (camera s)"
  by (cases code) simp_all

lemma handleKeyUp_position: "position (camera (handleKeyUp code s)) = position (camera s)"
  by (cases code) simp_all

lemma playerStep_insideWorld: "insideWorld s \<Longrightarrow> insideWorld (playerStep e s)"
proof (cases e)
  case (Frame props delta)
  assume inside: "insideWorld s"
  show ?thesis
  proof (cases "p_active props \<and> \<not> p_isScaring props")
    case True
    with inside Frame show ?thesis
      by (simp add: insideWorld_def playerFrame_position boundsCheck_within)
  next
    case False
    with inside Frame show ?thesis
      by (auto simp add: insideWorld_def playerFrame_inactive)
  qed
next
  case (KeyDown props code)
  assume "insideWorld s"
  with KeyDown show ?thesis
    by (simp add: insideWorld_def handleKeyDown_def pressKey_position)
next
  case (KeyUp code)
  assume "insideWorld s"
  with KeyUp show ?thesis
    by (simp add: insideWorld_def handleKeyUp_position)
next
  case (Look yaw q)
  assume "insideWorld s"
  with Look show ?thesis
    by (simp add: insideWorld_def)
qed

lemma playerRun_insideWorld: "insideWorld s \<Longrightarrow> insideWorld (playerRun steps s)"
  by (induction steps arbitrary: s) (simp_all add: playerStep_insideWorld)

text \<open>
  C1. If the player is strictly within 98.5 of the origin on the x and on the z axis,
  so it is after any sequence of frames, key events and camera turns, and in particular
  after one frame. In a frame that is not cut short, each horizontal axis is decided on
  its own: where the candidate coordinate passes the boundary test it becomes the new
  coordinate, where it fails (also when it is NaN) the coordinate keeps its previous
  value; the height is always set to the candidate height.
\<close>

theorem player_stays_within_world_boundary:
  assumes "\<bar>vx (position (camera s))\<bar> < 98.5" and "\<bar>vz (position (camera s))\<bar> < 98.5"
  shows "\<bar>vx (position (camera (playerRun steps s)))\<bar> < 98.5 \<and>
         \<bar>vz (position (camera (playerRun steps s)))\<bar> < 98.5 \<and>
         \<bar>vx (position (camera (fst (playerFrame props delta s))))\<bar> < 98.5 \<and>
         \<bar>vz (position (camera (fst (playerFrame props delta s))))\<bar> < 98.5 \<and>
         (p_active props \<and> \<not> p_isScaring props \<longrightarrow>
            (withinBoundary (fst (nextHorizontal props delta s)) \<longrightarrow>
               Num (vx (position (camera (fst (playerFrame props delta s))))) =
                 fst (nextHorizontal props delta s)) \<and>
            (\<not> withinBoundary (fst (nextHorizontal props delta s)) \<longrightarrow>
               vx (position (camera (fst (playerFrame props delta s)))) =
                 vx (position (camera s))) \<and>
            (withinBoundary (snd (nextHorizontal props delta s)) \<longrightarrow>
               Num (vz (position (camera (fst (playerFrame props delta s))))) =
                 snd (nextHorizontal props delta s)) \<and>
            (\<not> withinBoundary (snd (nextHorizontal props delta s)) \<longrightarrow>
               vz (position (camera (fst (playerFrame props delta s)))) =
                 vz (position (camera s))) \<and>
            vy (position (camera (fst (playerFrame props delta s)))) =
              fst (verticalMotion delta s))"
proof -
  from assms have inside: "insideWorld s"
    by (simp add: insideWorld_def WORLD_BOUNDARY_def)
  have run: "insideWorld (playerRun steps s)"
    using inside by (rule playerRun_insideWorld)
  have frame: "insideWorld (playerStep (Frame props delta) s)"
    using inside by (rule playerStep_insideWorld)
  have axes: "p_active props \<and> \<not> p_isScaring props \<longrightarrow>
            (withinBoundary (fst (nextHorizontal props delta s)) \<longrightarrow>
               Num (vx (position (camera (fst (playerFrame props delta s))))) =
                 fst (nextHorizontal props delta s)) \<and>
            (\<not> withinBoundary (fst (nextHorizontal props delta s)) \<longrightarrow>
               vx (position (camera (fst (playerFrame props delta s)))) =
                 vx (position (camera s))) \<and>
            (withinBoundary (snd (nextHorizontal props delta s)) \<longrightarrow>
               Num (vz (position (camera (fst (playerFrame props delta s))))) =
                 snd (nextHorizontal props delta s)) \<and>
            (\<not> withinBoundary (snd (nextHorizontal props delta s)) \<longrightarrow>
               vz (position (camera (fst (playerFrame props delta s)))) =
                 vz (position (camera s))) \<and>
            vy (position (camera (fst (playerFrame props delta s)))) =
              fst (verticalMotion delta s)"
    using boundsCheck_cases [of "fst (nextHorizontal props delta s)" "vx (position (camera s))"]
      boundsCheck_cases [of "snd (nextHorizontal props delta s)" "vz (position (camera s))"]
    by (simp add: playerFrame_position)
  from run frame axes show ?thesis
    by (simp add: insideWorld_def WORLD_BOUNDARY_def)
qed

text \<open>With no key held the target velocity is zero.\<close>

lemma playerStart_direction:
  "inputDirection (moveState playerStart) 0 = \<lparr>vx = 0, vy = 0, vz = 0\<rparr>"
  by (simp add: inputDirection_def playerStart_def Number_def subVectors_def normalize_def
      vlength_def divideScalar_def multiplyScalar_def applyEuler_def applyQuaternion_def
      setFromEuler_def Let_def)

lemma nearEastEdge_frame:
  "position (camera (fst (playerFrame playing 0.1 nearEastEdge))) =
     \<lparr>vx = 98.4, vy = 1.7, vz = 0.425\<rparr>"
  using playerStart_direction
  by (simp add: playerFrame_position playing_def nextHorizontal_def movedHorizontal_def
      nextVelocity_def lerpVector_def verticalMotion_def nearEastEdge_def playerStart_def
      GROUND_Y_def WORLD_BOUNDARY_def Let_def)

text \<open>The theorem for a player at \<open>x = 98.4\<close> sliding east and north: the candidate
  \<open>x = 99.25\<close> is refused and \<open>x\<close> stays 98.4, while \<open>z\<close> moves to 0.425.\<close>

theorem player_stays_within_world_boundary_witness:
  "\<bar>vx (position (camera nearEastEdge))\<bar> < 98.5 \<and>
   \<bar>vz (position (camera nearEastEdge))\<bar> < 98.5 \<and>
   fst (nextHorizontal playing 0.1 nearEastEdge) = Num 99.25 \<and>
   snd (nextHorizontal playing 0.1 nearEastEdge) = Num 0.425 \<and>
   position (camera (fst (playerFrame playing 0.1 nearEastEdge))) =
     \<lparr>vx = 98.4, vy = 1.7, vz = 0.425\<rparr> \<and>
   \<bar>vx (position (camera (playerRun [Frame playing 0.1, KeyDown playing KeyW, Frame playing 0.1]
        nearEastEdge)))\<bar> < 98.5"
proof -
  have start: "\<bar>vx (position (camera nearEastEdge))\<bar> < 98.5"
    "\<bar>vz (position (camera nearEastEdge))\<bar> < 98.5"
    by (simp_all add: nearEastEdge_def playerStart_def)
  have cand: "nextHorizontal playing 0.1 nearEastEdge = (Num 99.25, Num 0.425)"
    using playerStart_direction
    by (simp add: playing_def nextHorizontal_def movedHorizontal_def
      nextVelocity_def lerpVector_def nearEastEdge_def playerStart_def)
  from player_stays_within_world_boundary [OF start,
      of "[Frame playing 0.1, KeyDown playing KeyW, Frame playing 0.1]" playing "0.1"]
    start cand nearEastEdge_frame
  show ?thesis by simp
qed

section \<open>Obstacle collisions\<close>

lemma obstacleCollisions_append:
  "obstacleCollisions c (xs @ ys) = obstacleCollisions (obstacleCollisions c xs) ys"
  by (induction xs arbitrary: c) simp_all

text \<open>The distance of the loop body is zero only for a candidate exactly on the
  obstacle's centre.\<close>

lemma sqrt_sum_squares_zero:
  fixes dx dz :: real
  shows "sqrt (dx * dx + dz * dz) = 0 \<longleftrightarrow> dx = 0 \<and> dz = 0"
  by (simp add: sum_squares_eq_zero_iff)

text \<open>One pass of the loop body either leaves a finite candidate where it was, outside
  the obstacle's collision circle, or puts it on that circle.\<close>

lemma resolveObstacle_result:
  assumes "resolveObstacle c obs = (Num x, Num z)"
  shows "c = (Num x, Num z) \<and>
           (PLAYER_RADIUS + radius obs) * (PLAYER_RADIUS + radius obs) \<le>
             (x - fst (opos obs)) * (x - fst (opos obs)) +
             (z - snd (snd (opos obs))) * (z - snd (snd (opos obs)))
         \<or> (\<exists>x0 z0. c = (Num x0, Num z0)) \<and>
           sqrt ((x - fst (opos obs)) * (x - fst (opos obs)) +
                 (z - snd (snd (opos obs))) * (z - snd (snd (opos obs)))) =
             \<bar>PLAYER_RADIUS + radius obs\<bar>"
proof -
  obtain cx cz where c: "c = (cx, cz)" by (cases c)
  from assms c obtain x0 z0 where nums: "cx = Num x0" "cz = Num z0"
    by (cases cx; cases cz) simp_all
  define dx where "dx = x0 - fst (opos obs)"
  define dz where "dz = z0 - snd (snd (opos obs))"
  define R where "R = PLAYER_RADIUS + radius obs"
  define D where "D = sqrt (dx * dx + dz * dz)"
  have DD: "D * D = dx * dx + dz * dz" by (simp add: D_def)
  have step: "resolveObstacle (Num x0, Num z0) obs =
      (if dx * dx + dz * dz < R * R
       then (if D = 0 then (NaN, NaN)
             else (Num (x0 + dx / D * (R - D)), Num (z0 + dz / D * (R - D))))
       else (Num x0, Num z0))"
    by (simp add: Let_def dx_def dz_def R_def D_def)
  show ?thesis
  proof (cases "dx * dx + dz * dz < R * R")
    case False
    with assms c nums step have same: "x = x0" "z = z0"
      by simp_all
    from False have "R * R \<le> dx * dx + dz * dz" by simp
    with same c nums show ?thesis by (simp add: dx_def dz_def R_def)
  next
    case True
    have nz: "D \<noteq> 0"
    proof
      assume "D = 0"
      with True step have "resolveObstacle (Num x0, Num z0) obs = (NaN, NaN)"
        by simp
      with assms c nums show False by simp
    qed
    from True nz step have "resolveObstacle (Num x0, Num z0) obs =
        (Num (x0 + dx / D * (R - D)), Num (z0 + dz / D * (R - D)))"
      by (simp only: if_True if_False)
    with assms c nums have moved:
      "x = x0 + dx / D * (R - D)" "z = z0 + dz / D * (R - D)"
      by simp_all
    define q where "q = R / D"
    have ex: "x - fst (opos obs) = dx * q"
      using nz by (simp add: moved dx_def q_def field_simps)
    have ez: "z - snd (snd (opos obs)) = dz * q"
      using nz by (simp add: moved dz_def q_def field_simps)
    have "(x - fst (opos obs)) * (x - fst (opos obs)) +
          (z - snd (snd (opos obs))) * (z - snd (snd (opos obs))) =
          (dx * dx + dz * dz) * (q * q)"
      by (simp add: ex ez algebra_simps)
    also have "\<dots> = (D * D) * (q * q)" by (simp only: DD)
    also have "\<dots> = R * R" using nz by (simp add: q_def)
    finally have "sqrt ((x - fst (opos obs)) * (x - fst (opos obs)) +
          (z - snd (snd (opos obs))) * (z - snd (snd (opos obs)))) = \<bar>R\<bar>"
      by simp
    with c nums show ?thesis by (simp add: R_def)
  qed
qed

lemma resolveObstacle_clears:
  assumes "resolveObstacle c obs = (Num x, Num z)"
  shows "\<bar>PLAYER_RADIUS + radius obs\<bar> \<le>
         sqrt ((x - fst (opos obs)) * (x - fst (opos obs)) +
               (z - snd (snd (opos obs))) * (z - snd (snd (opos obs))))"
proof -
  from resolveObstacle_result [OF assms] show ?thesis
  proof
    assume "c = (Num x, Num z) \<and>
           (PLAYER_RADIUS + radius obs) * (PLAYER_RADIUS + radius obs) \<le>
             (x - fst (opos obs)) * (x - fst (opos obs)) +
             (z - snd (snd (opos obs))) * (z - snd (snd (opos obs)))"
    then have "sqrt ((PLAYER_RADIUS + radius obs) * (PLAYER_RADIUS + radius obs)) \<le>
         sqrt ((x - fst (opos obs)) * (x - fst (opos obs)) +
               (z - snd (snd (opos obs))) * (z - snd (snd (opos obs))))"
      by (intro real_sqrt_le_mono) simp
    then show ?thesis by simp
  next
    assume "(\<exists>x0 z0. c = (Num x0, Num z0)) \<and>
           sqrt ((x - fst (opos obs)) * (x - fst (opos obs)) +
                 (z - snd (snd (opos obs))) * (z - snd (snd (opos obs)))) =
             \<bar>PLAYER_RADIUS + radius obs\<bar>"
    then show ?thesis by simp
  qed
qed

text \<open>NaN is never repaired: a finite result comes from a finite candidate.\<close>

lemma resolveObstacle_finite:
  "resolveObstacle c obs = (Num x, Num z) \<Longrightarrow> \<exists>x0 z0. c = (Num x0, Num z0)"
  using resolveObstacle_result [of c obs x z] by auto

lemma obstacleCollisions_finite:
  "obstacleCollisions c obstacles = (Num x, Num z) \<Longrightarrow> \<exists>x0 z0. c = (Num x0, Num z0)"
proof (induction obstacles arbitrary: c)
  case Nil
  then show ?case by simp
next
  case (Cons obs rest)
  from Cons.prems have "obstacleCollisions (resolveObstacle c obs) rest = (Num x, Num z)"
    by simp
  then obtain x1 z1 where "resolveObstacle c obs = (Num x1, Num z1)"
    using Cons.IH by blast
  then show ?case by (rule resolveObstacle_finite)
qed

text \<open>A push by an obstacle whose collision circle does not overlap that of \<open>obs\<close>
  cannot bring the candidate into the collision circle of \<open>obs\<close>.\<close>

lemma plane_triangle:
  fixes ax az bx bz x z :: real
  shows "sqrt ((ax - bx) * (ax - bx) + (az - bz) * (az - bz)) \<le>
         sqrt ((x - ax) * (x - ax) + (z - az) * (z - az)) +
         sqrt ((x - bx) * (x - bx) + (z - bz) * (z - bz))"
proof -
  have "sqrt (((ax - x) + (x - bx))\<^sup>2 + ((az - z) + (z - bz))\<^sup>2) \<le>
        sqrt ((ax - x)\<^sup>2 + (az - z)\<^sup>2) + sqrt ((x - bx)\<^sup>2 + (z - bz)\<^sup>2)"
    by (rule real_sqrt_sum_squares_triangle_ineq)
  moreover have "(ax - x)\<^sup>2 = (x - ax) * (x - ax)" "(az - z)\<^sup>2 = (z - az) * (z - az)"
    by (simp_all add: power2_eq_square algebra_simps)
  ultimately show ?thesis
    by (simp add: power2_eq_square)
qed

lemma resolveObstacle_keeps_clear:
  assumes "resolveObstacle (Num x0, Num z0) b = (Num x, Num z)"
    and "collisionCirclesApart obs b"
    and "\<bar>PLAYER_RADIUS + radius obs\<bar> \<le>
         sqrt ((x0 - fst (opos obs)) * (x0 - fst (opos obs)) +
               (z0 - snd (snd (opos obs))) * (z0 - snd (snd (opos obs))))"
  shows "\<bar>PLAYER_RADIUS + radius obs\<bar> \<le>
         sqrt ((x - fst (opos obs)) * (x - fst (opos obs)) +
               (z - snd (snd (opos obs))) * (z - snd (snd (opos obs))))"
proof -
  from resolveObstacle_result [OF assms(1)] show ?thesis
  proof
    assume "(Num x0, Num z0) = (Num x, Num z) \<and>
           (PLAYER_RADIUS + radius b) * (PLAYER_RADIUS + radius b) \<le>
             (x - fst (opos b)) * (x - fst (opos b)) +
             (z - snd (snd (opos b))) * (z - snd (snd (opos b)))"
    with assms(3) show ?thesis by simp
  next
    assume "(\<exists>x1 z1. (Num x0, Num z0) = (Num x1, Num z1)) \<and>
           sqrt ((x - fst (opos b)) * (x - fst (opos b)) +
                 (z - snd (snd (opos b))) * (z - snd (snd (opos b)))) =
             \<bar>PLAYER_RADIUS + radius b\<bar>"
    then have onb: "sqrt ((x - fst (opos b)) * (x - fst (opos b)) +
                 (z - snd (snd (opos b))) * (z - snd (snd (opos b)))) =
             \<bar>PLAYER_RADIUS + radius b\<bar>" by simp
    from plane_triangle [of "fst (opos obs)" "fst (opos b)" "snd (snd (opos obs))"
        "snd (snd (opos b))" x z] onb assms(2)
    show ?thesis by (simp add: collisionCirclesApart_def)
  qed
qed

lemma obstacleCollisions_keeps_clear:
  assumes "\<forall>b\<in>set later. collisionCirclesApart obs b"
    and "obstacleCollisions (Num x0, Num z0) later = (Num x, Num z)"
    and "\<bar>PLAYER_RADIUS + radius obs\<bar> \<le>
         sqrt ((x0 - fst (opos obs)) * (x0 - fst (opos obs)) +
               (z0 - snd (snd (opos obs))) * (z0 - snd (snd (opos obs))))"
  shows "\<bar>PLAYER_RADIUS + radius obs\<bar> \<le>
         sqrt ((x - fst (opos obs)) * (x - fst (opos obs)) +
               (z - snd (snd (opos obs))) * (z - snd (snd (opos obs))))"
  using assms
proof (induction later arbitrary: x0 z0)
  case Nil
  then show ?case by simp
next
  case (Cons b rest)
  from Cons.prems(2)
  have run: "obstacleCollisions (resolveObstacle (Num x0, Num z0) b) rest = (Num x, Num z)"
    by simp
  then obtain x1 z1 where one: "resolveObstacle (Num x0, Num z0) b = (Num x1, Num z1)"
    using obstacleCollisions_finite by blast
  from Cons.prems(1) have apart: "collisionCirclesApart obs b"
    and rest: "\<forall>b\<in>set rest. collisionCirclesApart obs b" by simp_all
  have "\<bar>PLAYER_RADIUS + radius obs\<bar> \<le>
         sqrt ((x1 - fst (opos obs)) * (x1 - fst (opos obs)) +
               (z1 - snd (snd (opos obs))) * (z1 - snd (snd (opos obs))))"
    using one apart Cons.prems(3) by (rule resolveObstacle_keeps_clear)
  with rest run one show ?case
    using Cons.IH [of x1 z1] by simp
qed

text \<open>
  C2, as amended. The pass is sequential, so an obstacle handled later can push the
  candidate back into one handled earlier when their collision circles overlap. What
  holds: for every obstacle of the list whose collision circle overlaps that of no
  obstacle handled after it, if the candidate after the pass is finite and within the
  world boundary on both axes (so that it is committed), the committed position is at
  horizontal distance at least 0.6 plus the obstacle's radius minus a tolerance
  \<open>\<epsilon> > 0\<close> from it. (Over the reals of this model any positive \<open>\<epsilon>\<close> will do; the
  program's doubles land within rounding of the circle.)
\<close>

theorem collision_pass_clears_separated_obstacle:
  assumes "p_active props" and "\<not> p_isScaring props"
    and "p_obstacles props = earlier @ obs # later"
    and "\<forall>b\<in>set later. collisionCirclesApart obs b"
    and "nextHorizontal props delta s = (Num x, Num z)"
    and "\<bar>x\<bar> < 98.5" and "\<bar>z\<bar> < 98.5"
    and "0 < \<epsilon>"
  shows "0.6 + radius obs - \<epsilon> \<le>
         horizontalDistance (position (camera (fst (playerFrame props delta s)))) obs"
proof -
  have split: "earlier @ obs # later = (earlier @ [obs]) @ later" by simp
  have pass: "obstacleCollisions
      (obstacleCollisions (movedHorizontal delta s) (earlier @ [obs])) later = (Num x, Num z)"
    using assms(5) unfolding nextHorizontal_def assms(3) split
    by (simp only: obstacleCollisions_append)
  then obtain x1 z1 where
    mid: "obstacleCollisions (movedHorizontal delta s) (earlier @ [obs]) = (Num x1, Num z1)"
    using obstacleCollisions_finite by blast
  then have "resolveObstacle (obstacleCollisions (movedHorizontal delta s) earlier) obs =
      (Num x1, Num z1)"
    by (simp add: obstacleCollisions_append)
  then have "\<bar>PLAYER_RADIUS + radius obs\<bar> \<le>
         sqrt ((x1 - fst (opos obs)) * (x1 - fst (opos obs)) +
               (z1 - snd (snd (opos obs))) * (z1 - snd (snd (opos obs))))"
    by (rule resolveObstacle_clears)
  with assms(4) pass mid
  have clear: "\<bar>PLAYER_RADIUS + radius obs\<bar> \<le>
         sqrt ((x - fst (opos obs)) * (x - fst (opos obs)) +
               (z - snd (snd (opos obs))) * (z - snd (snd (opos obs))))"
    using obstacleCollisions_keeps_clear [of later obs x1 z1 x z] by simp
  have "position (camera (fst (playerFrame props delta s))) =
     \<lparr>vx = x, vy = fst (verticalMotion delta s), vz = z\<rparr>"
    using assms(1,2,5,6,7) by (simp add: playerFrame_position WORLD_BOUNDARY_def)
  with clear assms(8) show ?thesis
    by (simp add: horizontalDistance_def PLAYER_RADIUS_def)
qed

lemma still_player_candidate:
  "movedHorizontal delta (standingAt a c) = (Num a, Num c)"
  using playerStart_direction
  by (simp add: movedHorizontal_def nextVelocity_def lerpVector_def standingAt_def
      playerStart_def)

text \<open>The amended statement for two trees 30 apart and a player one unit from the
  second: the second tree pushes the player out to 1.4 from its centre, which leaves it
  31.4 from the first.\<close>

theorem collision_pass_clears_separated_obstacle_witness:
  "collisionCirclesApart farTree tree \<and>
   nextHorizontal (playing\<lparr>p_obstacles := [farTree, tree]\<rparr>) 0.016 (standingAt 19 0) =
     (Num 18.6, Num 0) \<and>
   position (camera (fst (playerFrame (playing\<lparr>p_obstacles := [farTree, tree]\<rparr>) 0.016
        (standingAt 19 0)))) = \<lparr>vx = 18.6, vy = 1.7, vz = 0\<rparr> \<and>
   0.6 + radius farTree - 0.001 \<le>
     horizontalDistance (position (camera (fst (playerFrame
        (playing\<lparr>p_obstacles := [farTree, tree]\<rparr>) 0.016 (standingAt 19 0))))) farTree \<and>
   0.6 + radius tree - 0.001 \<le>
     horizontalDistance (position (camera (fst (playerFrame
        (playing\<lparr>p_obstacles := [farTree, tree]\<rparr>) 0.016 (standingAt 19 0))))) tree"
proof -
  have "(2.8::real) \<le> sqrt 900" by (rule real_le_rsqrt) (simp add: power2_eq_square)
  then have apart: "collisionCirclesApart farTree tree"
    by (simp add: collisionCirclesApart_def farTree_def tree_def PLAYER_RADIUS_def)
  have pass: "nextHorizontal (playing\<lparr>p_obstacles := [farTree, tree]\<rparr>) 0.016
      (standingAt 19 0) = (Num 18.6, Num 0)"
    by (simp add: nextHorizontal_def playing_def still_player_candidate farTree_def tree_def
        PLAYER_RADIUS_def Let_def)
  have pos: "position (camera (fst (playerFrame (playing\<lparr>p_obstacles := [farTree, tree]\<rparr>)
        0.016 (standingAt 19 0)))) = \<lparr>vx = 18.6, vy = 1.7, vz = 0\<rparr>"
    using pass
    by (simp add: playerFrame_position playing_def verticalMotion_def
        standingAt_def playerStart_def GROUND_Y_def WORLD_BOUNDARY_def)
  have far: "0.6 + radius farTree - 0.001 \<le>
     horizontalDistance (position (camera (fst (playerFrame
        (playing\<lparr>p_obstacles := [farTree, tree]\<rparr>) 0.016 (standingAt 19 0))))) farTree"
    using collision_pass_clears_separated_obstacle
      [of "playing\<lparr>p_obstacles := [farTree, tree]\<rparr>" "[]" farTree "[tree]" "0.016"
        "standingAt 19 0" "18.6" 0 "0.001"] apart pass
    by (simp add: playing_def)
  have near: "0.6 + radius tree - 0.001 \<le>
     horizontalDistance (position (camera (fst (playerFrame
        (playing\<lparr>p_obstacles := [farTree, tree]\<rparr>) 0.016 (standingAt 19 0))))) tree"
    using collision_pass_clears_separated_obstacle
      [of "playing\<lparr>p_obstacles := [farTree, tree]\<rparr>" "[farTree]" tree "[]" "0.016"
        "standingAt 19 0" "18.6" 0 "0.001"] pass
    by (simp add: playing_def)
  from apart pass pos far near show ?thesis by blast
qed

text \<open>C2 as stated fails: with two rocks whose collision circles overlap, a player standing
  at \<open>x = 21\<close> is pushed to 23 by the first rock and back to 21 by the second, so the
  committed position is 1 from the first rock's centre where the combined radius is 3.\<close>

theorem collision_pass_overlap_counterexample:
  "nextHorizontal (playing\<lparr>p_obstacles := [rockA, rockB]\<rparr>) 0.016 (standingAt 21 0) =
     (Num 21, Num 0) \<and>
   horizontalDistance (position (camera (fst (playerFrame
        (playing\<lparr>p_obstacles := [rockA, rockB]\<rparr>) 0.016 (standingAt 21 0))))) rockA = 1 \<and>
   0.6 + radius rockA = 3 \<and>
   \<not> (0.6 + radius rockA - 1 \<le>
        horizontalDistance (position (camera (fst (playerFrame
          (playing\<lparr>p_obstacles := [rockA, rockB]\<rparr>) 0.016 (standingAt 21 0))))) rockA)"
proof -
  have pass: "nextHorizontal (playing\<lparr>p_obstacles := [rockA, rockB]\<rparr>) 0.016 (standingAt 21 0) =
     (Num 21, Num 0)"
    by (simp add: nextHorizontal_def playing_def still_player_candidate rockA_def rockB_def
        PLAYER_RADIUS_def Let_def)
  have pos: "position (camera (fst (playerFrame (playing\<lparr>p_obstacles := [rockA, rockB]\<rparr>) 0.016
        (standingAt 21 0)))) = \<lparr>vx = 21, vy = 1.7, vz = 0\<rparr>"
    using pass
    by (simp add: playerFrame_position playing_def verticalMotion_def
        standingAt_def playerStart_def GROUND_Y_def WORLD_BOUNDARY_def)
  have d: "horizontalDistance \<lparr>vx = 21, vy = 1.7, vz = 0\<rparr> rockA = 1"
    by (simp add: horizontalDistance_def rockA_def)
  show ?thesis
    unfolding pos d using pass by (simp add: rockA_def)
qed

section \<open>Zero distance\<close>

text \<open>
  C3. The claim asks for every normalisation to be guarded against a zero distance.
  The player's obstacle loop is not: for a candidate exactly on an obstacle's centre the
  loop divides zero by zero, both candidate coordinates become NaN, the boundary test
  refuses them, and the player stays on the centre of the obstacle.
\<close>

theorem coincident_obstacle_divides_zero_by_zero:
  "movedHorizontal 0.016 (standingAt 20 0) = (Num 20, Num 0) \<and>
   resolveObstacle (Num 20, Num 0) tree = (NaN, NaN) \<and>
   nextHorizontal (playing\<lparr>p_obstacles := [tree]\<rparr>) 0.016 (standingAt 20 0) = (NaN, NaN) \<and>
   position (camera (fst (playerFrame (playing\<lparr>p_obstacles := [tree]\<rparr>) 0.016
        (standingAt 20 0)))) = \<lparr>vx = 20, vy = 1.7, vz = 0\<rparr> \<and>
   horizontalDistance (position (camera (fst (playerFrame (playing\<lparr>p_obstacles := [tree]\<rparr>)
        0.016 (standingAt 20 0))))) tree = 0"
proof -
  have hit: "resolveObstacle (Num 20, Num 0) tree = (NaN, NaN)"
    by (simp add: tree_def PLAYER_RADIUS_def Let_def)
  have pass: "nextHorizontal (playing\<lparr>p_obstacles := [tree]\<rparr>) 0.016 (standingAt 20 0) =
     (NaN, NaN)"
    by (simp add: nextHorizontal_def playing_def still_player_candidate tree_def
        PLAYER_RADIUS_def Let_def)
  have pos: "position (camera (fst (playerFrame (playing\<lparr>p_obstacles := [tree]\<rparr>) 0.016
        (standingAt 20 0)))) = \<lparr>vx = 20, vy = 1.7, vz = 0\<rparr>"
    using pass
    by (simp add: playerFrame_position playing_def verticalMotion_def
        standingAt_def playerStart_def GROUND_Y_def)
  have d: "horizontalDistance \<lparr>vx = 20, vy = 1.7, vz = 0\<rparr> tree = 0"
    by (simp add: horizontalDistance_def tree_def)
  show ?thesis
    unfolding pos d by (intro conjI still_player_candidate hit pass refl)
qed

text \<open>In particular the candidate of that frame is NaN on the x axis.\<close>

theorem coincident_obstacle_divides_zero_by_zero_witness:
  "fst (nextHorizontal (playing\<lparr>p_obstacles := [tree]\<rparr>) 0.016 (standingAt 20 0)) = NaN"
  using coincident_obstacle_divides_zero_by_zero by simp

text \<open>The monster's direction is guarded, by \<open>normalize\<close> itself: a monster exactly at
  the camera does not move.\<close>

lemma normalize_zero: "normalize \<lparr>vx = 0, vy = 0, vz = 0\<rparr> = \<lparr>vx = 0, vy = 0, vz = 0\<rparr>"
  by (simp add: normalize_def vlength_def divideScalar_def)

lemma pursue_coincident: "pursue p delta p = p"
  by (simp add: pursue_def subVectors_def normalize_def vlength_def divideScalar_def)

section \<open>Jumpscare teleport\<close>

lemma monsterFrames_Suc:
  "monsterFrames props cam delta (Suc n) m =
     fst (monsterFrame props cam delta (monsterFrames props cam delta n m))"
  by (simp add: monsterFrames_def)

lemma monsterFrames_inactive:
  "\<not> m_active props \<Longrightarrow> monsterFrames props cam delta n m = m"
proof (induction n)
  case 0
  show ?case by (simp add: monsterFrames_def)
next
  case (Suc n)
  then show ?case by (simp add: monsterFrames_Suc monsterFrame_inactive)
qed

lemma monsterProps_scaring_inactive: "isScaring a \<Longrightarrow> \<not> m_active (monsterProps a)"
  by (simp add: monsterProps_def)

text \<open>What the jumpscare branch does for a monster that is given \<open>active\<close> and
  \<open>isScaring\<close> together: the first frame moves it to the teleport target and sets the
  flag, and further frames leave it there. The flag is cleared by the effect that runs
  when \<open>active\<close> becomes false.\<close>

lemma monsterFrame_teleport:
  "m_active props \<Longrightarrow> m_isScaring props \<Longrightarrow> meshRef m = Some p \<Longrightarrow> \<not> hasTeleported m \<Longrightarrow>
   monsterFrame props cam delta m =
     (m\<lparr>meshRef := Some (teleportTarget cam), hasTeleported := True\<rparr>, noMonsterEvents)"
  by (simp add: monsterFrame_def)

lemma monsterFrame_teleported:
  "m_isScaring props \<Longrightarrow> hasTeleported m \<Longrightarrow>
   monsterFrame props cam delta m = (m, noMonsterEvents)"
  by (simp add: monsterFrame_def split: option.splits)

lemma teleport_once_when_active:
  assumes "m_active props" "m_isScaring props" "meshRef m = Some p" "\<not> hasTeleported m"
  shows "monsterFrames props cam delta (Suc n) m =
           m\<lparr>meshRef := Some (teleportTarget cam), hasTeleported := True\<rparr>"
proof (induction n)
  case 0
  from assms show ?case
    by (simp add: monsterFrames_def monsterFrame_teleport)
next
  case (Suc n)
  show ?case
    by (subst monsterFrames_Suc) (simp add: Suc monsterFrame_teleported assms)
qed

lemma monsterActiveEffect_resets:
  "\<not> m_active props \<Longrightarrow> \<not> hasTeleported (monsterActiveEffect props m)"
  by (simp add: monsterActiveEffect_def)

lemma teleportTarget_start:
  "teleportTarget (camera playerStart) = \<lparr>vx = 0, vy = 0.5, vz = - 1.2\<rparr>"
  by (simp add: teleportTarget_def playerStart_def applyQuaternion_def addVector_def
      multiplyScalar_def Let_def)

text \<open>
  C5. The claim is that the monster teleports once in a jumpscare episode. \<open>App\<close>
  never lets the branch run: it passes \<open>active = (gameState = PLAYING \<and> \<not> isScaring)\<close>,
  so during a jumpscare the monster is inactive and its frame returns at the top. Here
  the monster, half a unit from the player, calls \<open>onCatch\<close>; after \<open>handleCatch\<close> and
  the next render the jumpscare is in progress, and one frame as well as the hundred
  frames of the 1.6 seconds leave the monster where it was with the flag unset, not at
  the teleport target \<open>(0, 0.5, -1.2)\<close>.
\<close>

theorem jumpscare_teleport_never_runs:
  "catchCalled (snd (monsterFrame (monsterProps fullBattery) (camera playerStart) 0.016
       (monsterAt 0.5 0 0))) \<and>
   isScaring (handleCatch fullBattery fullBattery) \<and>
   gameState (handleCatch fullBattery fullBattery) = PLAYING \<and>
   \<not> m_active (monsterProps (handleCatch fullBattery fullBattery)) \<and>
   m_isScaring (monsterProps (handleCatch fullBattery fullBattery)) \<and>
   monsterFrame (monsterProps (handleCatch fullBattery fullBattery)) (camera playerStart) 0.016
       (monsterAt 0.5 0 0) = (monsterAt 0.5 0 0, noMonsterEvents) \<and>
   monsterFrames (monsterProps (handleCatch fullBattery fullBattery)) (camera playerStart) 0.016 100
       (monsterAt 0.5 0 0) = monsterAt 0.5 0 0 \<and>
   \<not> hasTeleported (monsterAt 0.5 0 0) \<and>
   meshRef (monsterAt 0.5 0 0) = Some \<lparr>vx = 0.5, vy = 0, vz = 0\<rparr> \<and>
   teleportTarget (camera playerStart) = \<lparr>vx = 0, vy = 0.5, vz = - 1.2\<rparr>"
proof -
  have "sqrt 3.14 < (1.9::real)"
    by (rule real_less_lsqrt) (simp_all add: power2_eq_square)
  moreover have "distanceTo \<lparr>vx = 0.5, vy = 0, vz = 0\<rparr> (position (camera playerStart)) =
      sqrt 3.14"
    by (simp add: distanceTo_def vlength_def subVectors_def playerStart_def)
  ultimately have "catchCalled (snd (monsterFrame (monsterProps fullBattery)
      (camera playerStart) 0.016 (monsterAt 0.5 0 0)))"
    by (simp add: monsterFrame_pursuing [where p = "\<lparr>vx = 0.5, vy = 0, vz = 0\<rparr>"]
        monsterProps_def fullBattery_def monsterAt_def monsterStart_def)
  moreover have scare: "isScaring (handleCatch fullBattery fullBattery)"
    "gameState (handleCatch fullBattery fullBattery) = PLAYING"
    by (simp_all add: handleCatch_def fullBattery_def)
  moreover have off: "\<not> m_active (monsterProps (handleCatch fullBattery fullBattery))"
    using scare(1) by (rule monsterProps_scaring_inactive)
  moreover have "m_isScaring (monsterProps (handleCatch fullBattery fullBattery))"
    using scare(1) by (simp add: monsterProps_def)
  moreover have "\<not> hasTeleported (monsterAt 0.5 0 0)"
    "meshRef (monsterAt 0.5 0 0) = Some \<lparr>vx = 0.5, vy = 0, vz = 0\<rparr>"
    by (simp_all add: monsterAt_def monsterStart_def)
  ultimately show ?thesis
    by (intro conjI teleportTarget_start
        monsterFrame_inactive [OF off] monsterFrames_inactive [OF off])
qed

section \<open>Pursuit\<close>

lemma monsterFrames_pursuing:
  assumes "m_active props" "\<not> m_isScaring props" "meshRef m = Some p"
  shows "meshRef (monsterFrames props cam delta n m) =
           Some ((pursue (position cam) delta ^^ n) p)"
proof (induction n)
  case 0
  from assms show ?case by (simp add: monsterFrames_def)
next
  case (Suc n)
  show ?case
    by (subst monsterFrames_Suc)
      (simp add: monsterFrame_pursuing [OF assms(1,2) Suc])
qed

lemma chasePosition_0: "chasePosition 0 = \<lparr>vx = 60, vy = 0, vz = 60\<rparr>"
  by (simp add: chasePosition_def monsterFrames_def monsterStart_def)

lemma chasePosition_Suc:
  "chasePosition (Suc n) = pursue \<lparr>vx = 0, vy = 1.7, vz = 0\<rparr> 0.016 (chasePosition n)"
proof -
  have eye: "position (camera playerStart) = \<lparr>vx = 0, vy = 1.7, vz = 0\<rparr>"
    by (simp add: playerStart_def)
  have "meshRef (monsterFrames pursuing (camera playerStart) 0.016 k monsterStart) =
          Some ((pursue (position (camera playerStart)) 0.016 ^^ k) \<lparr>vx = 60, vy = 0, vz = 60\<rparr>)"
    for k
    by (rule monsterFrames_pursuing) (simp_all add: pursuing_def monsterStart_def)
  then show ?thesis
    by (simp add: chasePosition_def eye)
qed

text \<open>The scenario in coordinates: the monster stays on the ground, its distance to the
  player is at least the eye height 1.7, and a frame scales its horizontal offset by
  \<open>1 - speed * 0.016 / distance\<close>.\<close>

lemma eye_distance:
  assumes "vy p = 0"
  shows "distanceTo p \<lparr>vx = 0, vy = 1.7, vz = 0\<rparr> = sqrt (vx p * vx p + vz p * vz p + 2.89)"
    and "vlength (subVectors \<lparr>vx = 0, vy = 1.7, vz = 0\<rparr> p) =
           sqrt (vx p * vx p + vz p * vz p + 2.89)"
  using assms
  by (simp_all add: distanceTo_def vlength_def subVectors_def algebra_simps)

lemma eye_distance_bounds:
  fixes x z :: real
  defines "D \<equiv> sqrt (x * x + z * z + 2.89)"
  shows "1.7 \<le> D" and "D * D = x * x + z * z + 2.89" and "sqrt (x * x + z * z) < D"
proof -
  have nn: "0 \<le> x * x + z * z" by simp
  have "sqrt 2.89 = (1.7::real)" by (rule real_sqrt_unique) (simp_all add: power2_eq_square)
  moreover have "sqrt 2.89 \<le> D"
    unfolding D_def using nn by (intro real_sqrt_le_mono) simp
  ultimately show "1.7 \<le> D" by simp
  show "D * D = x * x + z * z + 2.89"
    unfolding D_def using nn by simp
  show "sqrt (x * x + z * z) < D"
    unfolding D_def by (intro real_sqrt_less_mono) simp
qed

lemma currentSpeed_bounds: "4.6 \<le> currentSpeed d" "currentSpeed d \<le> 6.8"
  by (simp_all add: currentSpeed_def CHASE_SPEED_def BASE_SPEED_def)

lemma pursue_eye:
  assumes "vy p = 0"
  defines "D \<equiv> sqrt (vx p * vx p + vz p * vz p + 2.89)"
  defines "q \<equiv> 1 - currentSpeed D * 0.016 / D"
  shows "pursue \<lparr>vx = 0, vy = 1.7, vz = 0\<rparr> 0.016 p = \<lparr>vx = vx p * q, vy = 0, vz = vz p * q\<rparr>"
proof -
  have "1.7 \<le> D" unfolding D_def by (rule eye_distance_bounds)
  then have nz: "D \<noteq> 0" by simp
  have len: "vlength (subVectors \<lparr>vx = 0, vy = 1.7, vz = 0\<rparr> p) = D"
    unfolding D_def using assms(1) by (rule eye_distance)
  have dist: "distanceTo p \<lparr>vx = 0, vy = 1.7, vz = 0\<rparr> = D"
    unfolding D_def using assms(1) by (rule eye_distance)
  have dir: "normalize (subVectors \<lparr>vx = 0, vy = 1.7, vz = 0\<rparr> p) =
      \<lparr>vx = - vx p / D, vy = (1.7 - vy p) / D, vz = - vz p / D\<rparr>"
    using nz by (simp add: normalize_def len divideScalar_def) (simp add: subVectors_def)
  show ?thesis
    using nz assms(1)
    by (simp add: pursue_def dist dir Let_def q_def field_simps)
qed

lemma shrink_bounds:
  assumes "1.7 \<le> D"
  shows "0 < 1 - currentSpeed D * 0.016 / D"
    and "1 - currentSpeed D * 0.016 / D < 1"
    and "1 - currentSpeed D * 0.016 / D \<le> 1 - 0.0736 / D"
  using assms
  by (simp_all add: currentSpeed_def CHASE_SPEED_def BASE_SPEED_def field_simps)

lemma chasePosition_step:
  assumes "vy (chasePosition n) = 0"
  shows "chaseDistance n =
           sqrt (vx (chasePosition n) * vx (chasePosition n) +
                 vz (chasePosition n) * vz (chasePosition n) + 2.89)"
    and "chasePosition (Suc n) =
           \<lparr>vx = vx (chasePosition n) * (1 - currentSpeed (chaseDistance n) * 0.016 / chaseDistance n),
            vy = 0,
            vz = vz (chasePosition n) * (1 - currentSpeed (chaseDistance n) * 0.016 / chaseDistance n)\<rparr>"
proof -
  have eye: "position (camera playerStart) = \<lparr>vx = 0, vy = 1.7, vz = 0\<rparr>"
    by (simp add: playerStart_def)
  show d: "chaseDistance n =
           sqrt (vx (chasePosition n) * vx (chasePosition n) +
                 vz (chasePosition n) * vz (chasePosition n) + 2.89)"
    unfolding chaseDistance_def eye using assms by (rule eye_distance)
  show "chasePosition (Suc n) =
           \<lparr>vx = vx (chasePosition n) * (1 - currentSpeed (chaseDistance n) * 0.016 / chaseDistance n),
            vy = 0,
            vz = vz (chasePosition n) * (1 - currentSpeed (chaseDistance n) * 0.016 / chaseDistance n)\<rparr>"
    unfolding d chasePosition_Suc using assms by (rule pursue_eye)
qed

lemma chase_level: "vy (chasePosition n) = 0"
  by (induction n) (simp_all add: chasePosition_0 chasePosition_step)

lemma chaseDistance_ge: "1.7 \<le> chaseDistance n"
  unfolding chasePosition_step(1) [OF chase_level] by (rule eye_distance_bounds)

lemma chase_apart:
  "0 < vx (chasePosition n) * vx (chasePosition n) + vz (chasePosition n) * vz (chasePosition n)"
proof (induction n)
  case 0
  show ?case by (simp add: chasePosition_0)
next
  case (Suc n)
  define q where "q = 1 - currentSpeed (chaseDistance n) * 0.016 / chaseDistance n"
  have q: "0 < q" unfolding q_def using chaseDistance_ge by (rule shrink_bounds)
  have next_pos: "chasePosition (Suc n) =
      \<lparr>vx = vx (chasePosition n) * q, vy = 0, vz = vz (chasePosition n) * q\<rparr>"
    unfolding q_def by (rule chasePosition_step(2) [OF chase_level])
  have "vx (chasePosition (Suc n)) * vx (chasePosition (Suc n)) +
        vz (chasePosition (Suc n)) * vz (chasePosition (Suc n)) =
        (q * q) * (vx (chasePosition n) * vx (chasePosition n) +
                   vz (chasePosition n) * vz (chasePosition n))"
    by (simp add: next_pos algebra_simps)
  also have "\<dots> > 0" using q Suc by simp
  finally show ?case .
qed

lemma chaseDistance_decreasing: "chaseDistance (Suc n) < chaseDistance n"
proof -
  define x where "x = vx (chasePosition n)"
  define z where "z = vz (chasePosition n)"
  define q where "q = 1 - currentSpeed (chaseDistance n) * 0.016 / chaseDistance n"
  have q: "0 < q" "q < 1"
    unfolding q_def using chaseDistance_ge by (rule shrink_bounds)+
  have apart: "0 < x * x + z * z" unfolding x_def z_def by (rule chase_apart)
  have next_pos: "chasePosition (Suc n) = \<lparr>vx = x * q, vy = 0, vz = z * q\<rparr>"
    unfolding x_def z_def q_def by (rule chasePosition_step(2) [OF chase_level])
  have "q * q < 1 * 1" using q by (intro mult_strict_mono) simp_all
  then have "(q * q) * (x * x + z * z) < 1 * (x * x + z * z)"
    using apart by (intro mult_strict_right_mono) simp_all
  then have "(x * q) * (x * q) + (z * q) * (z * q) + 2.89 < x * x + z * z + 2.89"
    by (simp add: algebra_simps)
  then have "sqrt ((x * q) * (x * q) + (z * q) * (z * q) + 2.89) < sqrt (x * x + z * z + 2.89)"
    by (rule real_sqrt_less_mono)
  moreover have "chaseDistance (Suc n) = sqrt ((x * q) * (x * q) + (z * q) * (z * q) + 2.89)"
    by (simp add: chasePosition_step(1) [OF chase_level] next_pos)
  moreover have "chaseDistance n = sqrt (x * x + z * z + 2.89)"
    unfolding x_def z_def by (rule chasePosition_step(1) [OF chase_level])
  ultimately show ?thesis by simp
qed

lemma chaseDistance_antimono: "m \<le> n \<Longrightarrow> chaseDistance n \<le> chaseDistance m"
proof (induction n)
  case 0
  then show ?case by simp
next
  case (Suc n)
  show ?case
  proof (cases "m = Suc n")
    case True
    then show ?thesis by simp
  next
    case False
    with Suc.prems have "m \<le> n" by simp
    then have "chaseDistance n \<le> chaseDistance m" by (rule Suc.IH)
    with chaseDistance_decreasing [of n] show ?thesis by simp
  qed
qed

lemma chaseStep_short: "chaseStep n < currentSpeed (chaseDistance n) * 0.016"
proof -
  define x where "x = vx (chasePosition n)"
  define z where "z = vz (chasePosition n)"
  define D where "D = chaseDistance n"
  define k where "k = currentSpeed D * 0.016"
  have D: "D = sqrt (x * x + z * z + 2.89)"
    unfolding D_def x_def z_def by (rule chasePosition_step(1) [OF chase_level])
  have Dge: "1.7 \<le> D" unfolding D_def by (rule chaseDistance_ge)
  have kpos: "0 < k"
    using currentSpeed_bounds(1) [of D] by (simp add: k_def)
  define c where "c = k / D"
  have cpos: "0 < c" using kpos Dge by (simp add: c_def)
  have next_pos: "chasePosition (Suc n) = \<lparr>vx = x * (1 - c), vy = 0, vz = z * (1 - c)\<rparr>"
    unfolding x_def z_def k_def D_def c_def by (rule chasePosition_step(2) [OF chase_level])
  have here: "chasePosition n = \<lparr>vx = x, vy = 0, vz = z\<rparr>"
    using chase_level [of n] by (simp add: x_def z_def)
  have "chaseStep n = sqrt ((x * (1 - c) - x) * (x * (1 - c) - x) +
                            (z * (1 - c) - z) * (z * (1 - c) - z))"
    by (simp add: chaseStep_def next_pos distanceTo_def vlength_def subVectors_def)
      (simp add: here)
  also have "(x * (1 - c) - x) * (x * (1 - c) - x) +
             (z * (1 - c) - z) * (z * (1 - c) - z) =
             (c * c) * (x * x + z * z)"
    by (simp add: algebra_simps)
  also have "sqrt ((c * c) * (x * x + z * z)) = c * sqrt (x * x + z * z)"
    using cpos by (simp add: real_sqrt_mult)
  also have "\<dots> < c * D"
    using cpos eye_distance_bounds(3) [of x z]
    by (intro mult_strict_left_mono) (simp_all add: D)
  also have "\<dots> = k" using Dge by (simp add: c_def)
  finally show ?thesis by (simp add: k_def D_def)
qed

lemma chaseDistance_0: "14 \<le> chaseDistance 0"
proof -
  have "sqrt 196 = (14::real)" by (rule real_sqrt_unique) (simp_all add: power2_eq_square)
  moreover have "sqrt 196 \<le> sqrt (60 * 60 + 60 * 60 + 2.89)"
    by (intro real_sqrt_le_mono) simp
  moreover have "chaseDistance 0 = sqrt (60 * 60 + 60 * 60 + 2.89)"
    by (simp add: chasePosition_step(1) [OF chase_level] chasePosition_0)
  ultimately show ?thesis by simp
qed

text \<open>The squared horizontal offset shrinks at least geometrically, so the distance
  gets below 14.\<close>

lemma chase_horizontal_geometric:
  "vx (chasePosition n) * vx (chasePosition n) + vz (chasePosition n) * vz (chasePosition n) \<le>
     ((1 - 0.0736 / chaseDistance 0) * (1 - 0.0736 / chaseDistance 0)) ^ n * 7200"
proof (induction n)
  case 0
  show ?case by (simp add: chasePosition_0)
next
  case (Suc n)
  define r where "r = 1 - 0.0736 / chaseDistance 0"
  define q where "q = 1 - currentSpeed (chaseDistance n) * 0.016 / chaseDistance n"
  define h where "h = vx (chasePosition n) * vx (chasePosition n) +
                      vz (chasePosition n) * vz (chasePosition n)"
  have q: "0 < q" "q \<le> 1 - 0.0736 / chaseDistance n"
    unfolding q_def using chaseDistance_ge by (rule shrink_bounds)+
  have "chaseDistance n \<le> chaseDistance 0" by (rule chaseDistance_antimono) simp
  moreover have "0 < chaseDistance n" using chaseDistance_ge [of n] by simp
  ultimately have "0.0736 / chaseDistance 0 \<le> 0.0736 / chaseDistance n"
    by (intro divide_left_mono) simp_all
  with q(2) have qr: "q \<le> r" by (simp add: r_def)
  have h0: "0 \<le> h" unfolding h_def by simp
  have next_pos: "chasePosition (Suc n) =
      \<lparr>vx = vx (chasePosition n) * q, vy = 0, vz = vz (chasePosition n) * q\<rparr>"
    unfolding q_def by (rule chasePosition_step(2) [OF chase_level])
  have "vx (chasePosition (Suc n)) * vx (chasePosition (Suc n)) +
        vz (chasePosition (Suc n)) * vz (chasePosition (Suc n)) = (q * q) * h"
    by (simp add: next_pos h_def algebra_simps)
  also have "\<dots> \<le> (r * r) * h"
    using q(1) qr h0 by (intro mult_right_mono mult_mono) simp_all
  also have "\<dots> \<le> (r * r) * ((r * r) ^ n * 7200)"
    using Suc by (intro mult_left_mono) (simp_all add: h_def r_def)
  finally show ?case by (simp add: r_def mult.assoc)
qed

lemma chase_reaches_range: "\<exists>n. chaseDistance n < 14"
proof -
  define r where "r = 1 - 0.0736 / chaseDistance 0"
  have "0 < r" "r < 1"
    using chaseDistance_ge [of 0] by (simp_all add: r_def field_simps)
  then have "r * r < 1 * 1" by (intro mult_strict_mono) simp_all
  then have "r * r < 1" by simp
  with real_arch_pow_inv [of "193 / 7200" "r * r"]
  obtain n where n: "(r * r) ^ n < 193 / 7200" by auto
  define h where "h = vx (chasePosition n) * vx (chasePosition n) +
                      vz (chasePosition n) * vz (chasePosition n)"
  have "h \<le> (r * r) ^ n * 7200"
    unfolding h_def r_def by (rule chase_horizontal_geometric)
  also have "\<dots> < 193" using n by simp
  finally have "h + 2.89 < 196" by simp
  then have "sqrt (h + 2.89) < sqrt 196" by (rule real_sqrt_less_mono)
  moreover have "sqrt 196 = (14::real)"
    by (rule real_sqrt_unique) (simp_all add: power2_eq_square)
  moreover have "chaseDistance n = sqrt (h + 2.89)"
    unfolding h_def by (rule chasePosition_step(1) [OF chase_level])
  ultimately have "chaseDistance n < 14" by simp
  then show ?thesis ..
qed

lemma chase_tier_switch:
  "\<exists>N>0. (\<forall>n<N. 14 \<le> chaseDistance n \<and> currentSpeed (chaseDistance n) = 4.6) \<and>
          (\<forall>n\<ge>N. chaseDistance n < 14 \<and> currentSpeed (chaseDistance n) = 6.8)"
proof -
  define N where "N = (LEAST n. chaseDistance n < 14)"
  have at: "chaseDistance N < 14"
    unfolding N_def using chase_reaches_range by (rule LeastI_ex)
  have before: "\<not> chaseDistance n < 14" if "n < N" for n
    using that unfolding N_def by (rule not_less_Least)
  have "N \<noteq> 0"
  proof
    assume "N = 0"
    with at chaseDistance_0 show False by simp
  qed
  then have "0 < N" by simp
  moreover have "14 \<le> chaseDistance n \<and> currentSpeed (chaseDistance n) = 4.6" if "n < N" for n
    using before [OF that] by (simp add: currentSpeed_def ATTACK_RANGE_def BASE_SPEED_def)
  moreover have "chaseDistance n < 14 \<and> currentSpeed (chaseDistance n) = 6.8" if "N \<le> n" for n
  proof -
    from that have "chaseDistance n \<le> chaseDistance N" by (rule chaseDistance_antimono)
    with at have "chaseDistance n < 14" by simp
    then show ?thesis by (simp add: currentSpeed_def ATTACK_RANGE_def CHASE_SPEED_def)
  qed
  ultimately show ?thesis by blast
qed

lemma pursue_components:
  "pursue playerPos delta p =
     \<lparr>vx = vx p + vx (normalize (subVectors playerPos p)) *
              (if distanceTo p playerPos < 14 then 6.8 else 4.6) * delta,
      vy = vy p,
      vz = vz p + vz (normalize (subVectors playerPos p)) *
              (if distanceTo p playerPos < 14 then 6.8 else 4.6) * delta\<rparr>"
  by (simp add: pursue_def Let_def currentSpeed_def ATTACK_RANGE_def CHASE_SPEED_def
      BASE_SPEED_def)

lemma chaseStep_length:
  "chaseStep n =
     currentSpeed (chaseDistance n) * 0.016 / chaseDistance n *
       sqrt (vx (chasePosition n) * vx (chasePosition n) +
             vz (chasePosition n) * vz (chasePosition n))"
proof -
  define x where "x = vx (chasePosition n)"
  define z where "z = vz (chasePosition n)"
  define D where "D = chaseDistance n"
  define k where "k = currentSpeed D * 0.016"
  have Dge: "1.7 \<le> D" unfolding D_def by (rule chaseDistance_ge)
  have kpos: "0 < k"
    using currentSpeed_bounds(1) [of D] by (simp add: k_def)
  define c where "c = k / D"
  have cpos: "0 < c" using kpos Dge by (simp add: c_def)
  have next_pos: "chasePosition (Suc n) = \<lparr>vx = x * (1 - c), vy = 0, vz = z * (1 - c)\<rparr>"
    unfolding x_def z_def k_def D_def c_def by (rule chasePosition_step(2) [OF chase_level])
  have here: "chasePosition n = \<lparr>vx = x, vy = 0, vz = z\<rparr>"
    using chase_level [of n] by (simp add: x_def z_def)
  have "chaseStep n = sqrt ((x * (1 - c) - x) * (x * (1 - c) - x) +
                            (z * (1 - c) - z) * (z * (1 - c) - z))"
    by (simp add: chaseStep_def next_pos distanceTo_def vlength_def subVectors_def)
      (simp add: here)
  also have "(x * (1 - c) - x) * (x * (1 - c) - x) +
             (z * (1 - c) - z) * (z * (1 - c) - z) =
             (c * c) * (x * x + z * z)"
    by (simp add: algebra_simps)
  also have "sqrt ((c * c) * (x * x + z * z)) = c * sqrt (x * x + z * z)"
    using cpos by (simp add: real_sqrt_mult)
  finally show ?thesis by (simp add: c_def k_def D_def x_def z_def)
qed

lemma chaseStep_long:
  assumes "13 \<le> chaseDistance n"
  shows "0.99 * (currentSpeed (chaseDistance n) * 0.016) < chaseStep n"
proof -
  define h where "h = vx (chasePosition n) * vx (chasePosition n) +
                      vz (chasePosition n) * vz (chasePosition n)"
  define D where "D = chaseDistance n"
  define k where "k = currentSpeed D * 0.016"
  have D: "D = sqrt (h + 2.89)"
    unfolding D_def h_def by (rule chasePosition_step(1) [OF chase_level])
  have h0: "0 \<le> h" unfolding h_def by simp
  have DD: "D * D = h + 2.89" using h0 by (simp add: D)
  have Dge: "13 \<le> D" using assms by (simp add: D_def)
  then have "13 * 13 \<le> D * D" by (intro mult_mono) simp_all
  then have "(0.99 * D)\<^sup>2 < h" using DD by (simp add: power2_eq_square algebra_simps)
  then have far: "0.99 * D < sqrt h" by (rule real_less_rsqrt)
  have kpos: "0 < k"
    using currentSpeed_bounds(1) [of D] by (simp add: k_def)
  then have c: "0 < k / D" using Dge by simp
  have "0.99 * k = k / D * (0.99 * D)" using Dge by simp
  also have "\<dots> < k / D * sqrt h"
    using far c by (rule mult_strict_left_mono)
  also have "\<dots> = chaseStep n"
    unfolding k_def D_def h_def by (rule chaseStep_length [symmetric])
  finally show ?thesis unfolding k_def D_def .
qed

lemma chaseDistance_Suc_ge:
  assumes "14 \<le> chaseDistance n"
  shows "13 \<le> chaseDistance (Suc n)"
proof -
  define x where "x = vx (chasePosition n)"
  define z where "z = vz (chasePosition n)"
  define D where "D = chaseDistance n"
  define q where "q = 1 - currentSpeed D * 0.016 / D"
  have D: "D = sqrt (x * x + z * z + 2.89)"
    unfolding D_def x_def z_def by (rule chasePosition_step(1) [OF chase_level])
  have Dge: "14 \<le> D" using assms by (simp add: D_def)
  have DD: "D * D = x * x + z * z + 2.89"
    unfolding D by (rule eye_distance_bounds)
  from Dge have "14 * 14 \<le> D * D" by (intro mult_mono) simp_all
  with DD have far: "193 \<le> x * x + z * z" by simp
  have "currentSpeed D * 0.016 / D \<le> 6.8 * 0.016 / 14"
    using currentSpeed_bounds [of D] Dge by (intro frac_le) simp_all
  then have q: "0.99 \<le> q" by (simp add: q_def)
  then have "0.99 * 0.99 \<le> q * q" by (intro mult_mono) simp_all
  then have "0.98 \<le> q * q" by simp
  then have "0.98 * (x * x + z * z) \<le> (q * q) * (x * x + z * z)"
    by (intro mult_right_mono) simp_all
  with far have "169 \<le> (x * q) * (x * q) + (z * q) * (z * q) + 2.89"
    by (simp add: algebra_simps)
  then have "13\<^sup>2 \<le> (x * q) * (x * q) + (z * q) * (z * q) + 2.89" by simp
  then have "13 \<le> sqrt ((x * q) * (x * q) + (z * q) * (z * q) + 2.89)"
    by (rule real_le_rsqrt)
  moreover have next_pos: "chasePosition (Suc n) = \<lparr>vx = x * q, vy = 0, vz = z * q\<rparr>"
    unfolding x_def z_def q_def D_def by (rule chasePosition_step(2) [OF chase_level])
  then have "chaseDistance (Suc n) = sqrt ((x * q) * (x * q) + (z * q) * (z * q) + 2.89)"
    by (simp add: chasePosition_step(1) [OF chase_level])
  ultimately show ?thesis by simp
qed

lemma chase_until_range:
  "\<exists>N>0. (\<forall>n<N. 14 \<le> chaseDistance n \<and> currentSpeed (chaseDistance n) = 4.6 \<and>
                 chaseDistance (Suc n) < chaseDistance n \<and>
                 0.99 * (4.6 * 0.016) < chaseStep n \<and> chaseStep n < 4.6 * 0.016) \<and>
          chaseDistance N < 14 \<and> currentSpeed (chaseDistance N) = 6.8 \<and>
          0.99 * (6.8 * 0.016) < chaseStep N \<and> chaseStep N < 6.8 * 0.016"
proof -
  from chase_tier_switch obtain N where N: "0 < N"
    and before: "\<forall>n<N. 14 \<le> chaseDistance n \<and> currentSpeed (chaseDistance n) = 4.6"
    and after: "\<forall>n\<ge>N. chaseDistance n < 14 \<and> currentSpeed (chaseDistance n) = 6.8"
    by blast
  have "14 \<le> chaseDistance n \<and> currentSpeed (chaseDistance n) = 4.6 \<and>
        chaseDistance (Suc n) < chaseDistance n \<and>
        0.99 * (4.6 * 0.016) < chaseStep n \<and> chaseStep n < 4.6 * 0.016" if "n < N" for n
  proof -
    from before that have far: "14 \<le> chaseDistance n"
      and slow: "currentSpeed (chaseDistance n) = 4.6" by simp_all
    from far have "13 \<le> chaseDistance n" by simp
    then have "0.99 * (currentSpeed (chaseDistance n) * 0.016) < chaseStep n"
      by (rule chaseStep_long)
    moreover have "chaseStep n < currentSpeed (chaseDistance n) * 0.016"
      by (rule chaseStep_short)
    ultimately show ?thesis
      using far slow chaseDistance_decreasing [of n] by simp
  qed
  moreover from after have near: "chaseDistance N < 14"
    and fast: "currentSpeed (chaseDistance N) = 6.8" by simp_all
  moreover have "0.99 * (6.8 * 0.016) < chaseStep N \<and> chaseStep N < 6.8 * 0.016"
  proof -
    from N obtain m where m: "N = Suc m" by (cases N) simp_all
    with before have "14 \<le> chaseDistance m" by simp
    then have "13 \<le> chaseDistance N" unfolding m by (rule chaseDistance_Suc_ge)
    then have "0.99 * (currentSpeed (chaseDistance N) * 0.016) < chaseStep N"
      by (rule chaseStep_long)
    moreover have "chaseStep N < currentSpeed (chaseDistance N) * 0.016"
      by (rule chaseStep_short)
    ultimately show ?thesis using fast by simp
  qed
  ultimately show ?thesis using N by blast
qed

text \<open>
  C7, as amended. A pursuing frame adds to the monster's \<open>x\<close> and \<open>z\<close> the \<open>x\<close> and \<open>z\<close>
  components of the normalised direction to the camera times the speed times the frame
  time, the speed being 6.8 when the distance at the start of the frame is below 14 and
  4.6 otherwise, and leaves \<open>y\<close> as it is. In the scenario (player at \<open>(0, 1.7, 0)\<close>,
  monster from \<open>(60, 0, 60)\<close>, frame time 0.016) there is a frame \<open>N > 0\<close> such that in
  every frame before it the distance is at least 14, decreases strictly and the speed is
  4.6, and at frame \<open>N\<close> the distance is below 14 and the speed is 6.8. The length of the
  move made by each of these frames is strictly less than speed times frame time,
  because the direction is normalised in three dimensions and its vertical component is
  not applied, and it is more than 0.99 of speed times frame time.
\<close>

theorem pursuit_speed_tiers:
  "(m_active props \<and> \<not> m_isScaring props \<and> meshRef m = Some p \<longrightarrow>
      meshRef (fst (monsterFrame props cam delta m)) =
        Some \<lparr>vx = vx p + vx (normalize (subVectors (position cam) p)) *
                      (if distanceTo p (position cam) < 14 then 6.8 else 4.6) * delta,
              vy = vy p,
              vz = vz p + vz (normalize (subVectors (position cam) p)) *
                      (if distanceTo p (position cam) < 14 then 6.8 else 4.6) * delta\<rparr>) \<and>
   (\<exists>N>0. (\<forall>n<N. 14 \<le> chaseDistance n \<and> currentSpeed (chaseDistance n) = 4.6 \<and>
                 chaseDistance (Suc n) < chaseDistance n \<and>
                 0.99 * (4.6 * 0.016) < chaseStep n \<and> chaseStep n < 4.6 * 0.016) \<and>
          chaseDistance N < 14 \<and> currentSpeed (chaseDistance N) = 6.8 \<and>
          0.99 * (6.8 * 0.016) < chaseStep N \<and> chaseStep N < 6.8 * 0.016)"
proof (intro conjI impI)
  assume "m_active props \<and> \<not> m_isScaring props \<and> meshRef m = Some p"
  then show "meshRef (fst (monsterFrame props cam delta m)) =
        Some \<lparr>vx = vx p + vx (normalize (subVectors (position cam) p)) *
                      (if distanceTo p (position cam) < 14 then 6.8 else 4.6) * delta,
              vy = vy p,
              vz = vz p + vz (normalize (subVectors (position cam) p)) *
                      (if distanceTo p (position cam) < 14 then 6.8 else 4.6) * delta\<rparr>"
    by (simp add: monsterFrame_pursuing pursue_components)
next
  show "\<exists>N>0. (\<forall>n<N. 14 \<le> chaseDistance n \<and> currentSpeed (chaseDistance n) = 4.6 \<and>
                 chaseDistance (Suc n) < chaseDistance n \<and>
                 0.99 * (4.6 * 0.016) < chaseStep n \<and> chaseStep n < 4.6 * 0.016) \<and>
          chaseDistance N < 14 \<and> currentSpeed (chaseDistance N) = 6.8 \<and>
          0.99 * (6.8 * 0.016) < chaseStep N \<and> chaseStep N < 6.8 * 0.016"
    by (rule chase_until_range)
qed

text \<open>The amended statement for a monster 5 units from the player, and in the scenario
  at the first frame and at the frame of the switch.\<close>

theorem pursuit_speed_tiers_witness:
  "meshRef (fst (monsterFrame pursuing (camera playerStart) 0.016 (monsterAt 3 1.7 4))) =
     Some \<lparr>vx = 2.93472, vy = 1.7, vz = 3.91296\<rparr> \<and>
   (\<exists>N>0. 14 \<le> chaseDistance 0 \<and> chaseDistance 1 < chaseDistance 0 \<and>
          0.99 * (4.6 * 0.016) < chaseStep 0 \<and> chaseStep 0 < 4.6 * 0.016 \<and>
          14 \<le> chaseDistance (N - 1) \<and> chaseDistance N < chaseDistance (N - 1) \<and>
          chaseDistance N < 14 \<and> currentSpeed (chaseDistance N) = 6.8 \<and>
          0.99 * (6.8 * 0.016) < chaseStep N \<and> chaseStep N < 6.8 * 0.016)"
proof -
  have five: "sqrt 25 = 5" by (rule real_sqrt_unique) simp_all
  note inst = pursuit_speed_tiers [of pursuing "monsterAt 3 1.7 4" "\<lparr>vx = 3, vy = 1.7, vz = 4\<rparr>"
      "camera playerStart" "0.016"]
  from inst have frame:
    "meshRef (fst (monsterFrame pursuing (camera playerStart) 0.016 (monsterAt 3 1.7 4))) =
     Some \<lparr>vx = 2.93472, vy = 1.7, vz = 3.91296\<rparr>"
    by (simp add: pursuing_def monsterAt_def monsterStart_def playerStart_def distanceTo_def
        vlength_def subVectors_def normalize_def divideScalar_def five)
  from inst obtain N where N: "0 < N"
    and before: "\<forall>n<N. 14 \<le> chaseDistance n \<and> currentSpeed (chaseDistance n) = 4.6 \<and>
                 chaseDistance (Suc n) < chaseDistance n \<and>
                 0.99 * (4.6 * 0.016) < chaseStep n \<and> chaseStep n < 4.6 * 0.016"
    and at: "chaseDistance N < 14" "currentSpeed (chaseDistance N) = 6.8"
          "0.99 * (6.8 * 0.016) < chaseStep N" "chaseStep N < 6.8 * 0.016"
    by blast
  from N before have first: "14 \<le> chaseDistance 0" "chaseDistance (Suc 0) < chaseDistance 0"
    "0.99 * (4.6 * 0.016) < chaseStep 0" "chaseStep 0 < 4.6 * 0.016"
    by blast+
  from N obtain k where k: "N = Suc k" by (cases N) simp_all
  with before have last: "14 \<le> chaseDistance (N - 1)" "chaseDistance N < chaseDistance (N - 1)"
    by simp_all
  from first last at N have "\<exists>N>0. 14 \<le> chaseDistance 0 \<and> chaseDistance 1 < chaseDistance 0 \<and>
          0.99 * (4.6 * 0.016) < chaseStep 0 \<and> chaseStep 0 < 4.6 * 0.016 \<and>
          14 \<le> chaseDistance (N - 1) \<and> chaseDistance N < chaseDistance (N - 1) \<and>
          chaseDistance N < 14 \<and> currentSpeed (chaseDistance N) = 6.8 \<and>
          0.99 * (6.8 * 0.016) < chaseStep N \<and> chaseStep N < 6.8 * 0.016"
    by (intro exI [of _ N]) simp
  with frame show ?thesis by blast
qed

text \<open>C7 as stated fails: the first frame of the scenario runs at speed 4.6, and the
  move it makes is shorter than \<open>4.6 * 0.016\<close>.\<close>

theorem pursuit_step_length_counterexample:
  "14 \<le> chaseDistance 0 \<and> currentSpeed (chaseDistance 0) = 4.6 \<and>
   chaseStep 0 < 4.6 * 0.016 \<and> chaseStep 0 \<noteq> 4.6 * 0.016"
proof -
  have slow: "currentSpeed (chaseDistance 0) = 4.6"
    using chaseDistance_0 by (simp add: currentSpeed_def ATTACK_RANGE_def BASE_SPEED_def)
  have "chaseStep 0 < currentSpeed (chaseDistance 0) * 0.016" by (rule chaseStep_short)
  then have "chaseStep 0 < 4.6 * 0.016" by (simp add: slow)
  with chaseDistance_0 slow show ?thesis by simp
qed

section \<open>The catch handler\<close>

lemma handleCatch_ignored:
  "isScaring rendered \<or> gameState rendered \<noteq> PLAYING \<Longrightarrow> handleCatch rendered s = s"
  by (auto simp add: handleCatch_def)

lemma handleCatch_accepted:
  "gameState rendered = PLAYING \<Longrightarrow> \<not> isScaring rendered \<Longrightarrow>
   handleCatch rendered s =
     s\<lparr>isScaring := True, jumpscareAudio := map_option Suc (jumpscareAudio s),
       gameOverTimeouts := Suc (gameOverTimeouts s)\<rparr>"
  by (simp add: handleCatch_def)

text \<open>When every call is made through a closure of a render that has seen the previous
  call, any positive number of calls has the effect of one.\<close>

lemma handleCatch_rerendered_once:
  assumes "gameState s = PLAYING" "\<not> isScaring s"
  shows "((\<lambda>t. handleCatch t t) ^^ Suc n) s =
           s\<lparr>isScaring := True, jumpscareAudio := map_option Suc (jumpscareAudio s),
             gameOverTimeouts := Suc (gameOverTimeouts s)\<rparr>"
proof (induction n)
  case 0
  from assms show ?case by (simp add: handleCatch_accepted)
next
  case (Suc n)
  have "((\<lambda>t. handleCatch t t) ^^ Suc (Suc n)) s =
        (\<lambda>t. handleCatch t t) (((\<lambda>t. handleCatch t t) ^^ Suc n) s)"
    by (simp only: funpow.simps o_apply)
  also have "\<dots> = ((\<lambda>t. handleCatch t t) ^^ Suc n) s"
    unfolding Suc by (simp add: handleCatch_ignored)
  finally show ?case by (simp only: Suc)
qed

text \<open>Calls made through one and the same closure all pass its guard.\<close>

lemma handleCatch_stale:
  assumes "gameState rendered = PLAYING" "\<not> isScaring rendered"
    and "jumpscareAudio s = Some a"
  shows "jumpscareAudio ((handleCatch rendered ^^ n) s) = Some (a + n) \<and>
         gameOverTimeouts ((handleCatch rendered ^^ n) s) = gameOverTimeouts s + n"
proof (induction n)
  case 0
  from assms(3) show ?case by simp
next
  case (Suc n)
  then show ?case by (simp add: handleCatch_accepted [OF assms(1,2)])
qed

text \<open>Two consecutive frames of the close monster both call \<open>onCatch\<close>.\<close>

lemma monsterFrame_pursuing_mesh:
  "m_active props \<Longrightarrow> \<not> m_isScaring props \<Longrightarrow> meshRef m = Some p \<Longrightarrow>
   meshRef (fst (monsterFrame props cam delta m)) = Some (pursue (position cam) delta p)"
  by (simp add: monsterFrame_pursuing)

lemma monsterFrame_pursuing_catch:
  "m_active props \<Longrightarrow> \<not> m_isScaring props \<Longrightarrow> meshRef m = Some p \<Longrightarrow>
   catchCalled (snd (monsterFrame props cam delta m)) = (distanceTo p (position cam) < 1.9)"
  by (simp add: monsterFrame_pursuing)

lemma closeMonster_second_frame:
  "catchCalled (snd (monsterFrame (monsterProps fullBattery) (camera playerStart) 0.016
     (fst (monsterFrame (monsterProps fullBattery) (camera playerStart) 0.016 closeMonster))))"
proof -
  define p where "p = \<lparr>vx = 0.5, vy = 0, vz = 0\<rparr>"
  define D where "D = sqrt (vx p * vx p + vz p * vz p + 2.89)"
  define q where "q = 1 - currentSpeed D * 0.016 / D"
  define p' where "p' = \<lparr>vx = vx p * q, vy = 0, vz = vz p * q\<rparr>"
  have props: "m_active (monsterProps fullBattery)" "\<not> m_isScaring (monsterProps fullBattery)"
    by (simp_all add: monsterProps_def fullBattery_def)
  have eye: "position (camera playerStart) = \<lparr>vx = 0, vy = 1.7, vz = 0\<rparr>"
    by (simp add: playerStart_def)
  have mesh: "meshRef closeMonster = Some p"
    by (simp add: closeMonster_def monsterAt_def monsterStart_def p_def)
  have level: "vy p = 0" by (simp add: p_def)
  have "1.7 \<le> D" unfolding D_def by (rule eye_distance_bounds)
  then have q: "0 < q" "q < 1" unfolding q_def by (rule shrink_bounds)+
  have moved: "pursue \<lparr>vx = 0, vy = 1.7, vz = 0\<rparr> 0.016 p = p'"
    unfolding p'_def q_def D_def using level by (rule pursue_eye)
  have second: "meshRef (fst (monsterFrame (monsterProps fullBattery) (camera playerStart)
      0.016 closeMonster)) = Some p'"
    using monsterFrame_pursuing_mesh [OF props mesh, of "camera playerStart" "0.016"]
    unfolding eye moved .
  have "q * q < 1 * 1" using q by (intro mult_strict_mono) simp_all
  then have "vx p' * vx p' + vz p' * vz p' + 2.89 < (1.9::real)\<^sup>2"
    by (simp add: p'_def p_def power2_eq_square)
  then have "sqrt (vx p' * vx p' + vz p' * vz p' + 2.89) < 1.9"
    by (intro real_less_lsqrt) simp_all
  moreover have "vy p' = 0" by (simp add: p'_def)
  then have "distanceTo p' \<lparr>vx = 0, vy = 1.7, vz = 0\<rparr> =
      sqrt (vx p' * vx p' + vz p' * vz p' + 2.89)"
    by (rule eye_distance)
  ultimately have "distanceTo p' (position (camera playerStart)) < 1.9"
    by (simp only: eye)
  then show ?thesis
    by (simp only: monsterFrame_pursuing_catch [OF props second])
qed

lemma closeMonster_first_frame:
  "catchCalled (snd (monsterFrame (monsterProps fullBattery) (camera playerStart) 0.016
     closeMonster))"
proof -
  have "sqrt 3.14 < (1.9::real)"
    by (rule real_less_lsqrt) (simp_all add: power2_eq_square)
  moreover have "distanceTo \<lparr>vx = 0.5, vy = 0, vz = 0\<rparr> (position (camera playerStart)) =
      sqrt 3.14"
    by (simp add: distanceTo_def vlength_def subVectors_def playerStart_def)
  ultimately show ?thesis
    by (simp add: monsterFrame_pursuing [where p = "\<lparr>vx = 0.5, vy = 0, vz = 0\<rparr>"]
        monsterProps_def fullBattery_def closeMonster_def monsterAt_def monsterStart_def)
qed

text \<open>
  C10. The claim is that repeated catch signals start the jumpscare audio once and set
  one game-over timer per episode. The guard of \<open>handleCatch\<close> tests the \<open>gameState\<close> and
  \<open>isScaring\<close> of the render that created the closure, not the state the previous call
  left. Here the monster, half a unit from the player, calls \<open>onCatch\<close> in two
  consecutive frames; when both calls go through the closure of the same render, the
  audio is started twice and two timers are set. Only when \<open>App\<close> has rendered again
  between the two calls does the second one change nothing.
\<close>

theorem stale_handleCatch_starts_jumpscare_twice:
  "catchCalled (snd (monsterFrame (monsterProps fullBattery) (camera playerStart) 0.016
     closeMonster)) \<and>
   catchCalled (snd (monsterFrame (monsterProps fullBattery) (camera playerStart) 0.016
     (fst (monsterFrame (monsterProps fullBattery) (camera playerStart) 0.016 closeMonster)))) \<and>
   isScaring (handleCatch fullBattery fullBattery) \<and>
   jumpscareAudio (handleCatch fullBattery fullBattery) = Some 1 \<and>
   gameOverTimeouts (handleCatch fullBattery fullBattery) = 1 \<and>
   jumpscareAudio (handleCatch fullBattery (handleCatch fullBattery fullBattery)) = Some 2 \<and>
   gameOverTimeouts (handleCatch fullBattery (handleCatch fullBattery fullBattery)) = 2 \<and>
   jumpscareAudio (handleCatch (handleCatch fullBattery fullBattery)
     (handleCatch fullBattery fullBattery)) = Some 1 \<and>
   gameOverTimeouts (handleCatch (handleCatch fullBattery fullBattery)
     (handleCatch fullBattery fullBattery)) = 1"
proof -
  have calls: "isScaring (handleCatch fullBattery fullBattery) \<and>
   jumpscareAudio (handleCatch fullBattery fullBattery) = Some 1 \<and>
   gameOverTimeouts (handleCatch fullBattery fullBattery) = 1 \<and>
   jumpscareAudio (handleCatch fullBattery (handleCatch fullBattery fullBattery)) = Some 2 \<and>
   gameOverTimeouts (handleCatch fullBattery (handleCatch fullBattery fullBattery)) = 2 \<and>
   jumpscareAudio (handleCatch (handleCatch fullBattery fullBattery)
     (handleCatch fullBattery fullBattery)) = Some 1 \<and>
   gameOverTimeouts (handleCatch (handleCatch fullBattery fullBattery)
     (handleCatch fullBattery fullBattery)) = 1"
    by (simp add: handleCatch_def fullBattery_def)
  from closeMonster_first_frame closeMonster_second_frame calls show ?thesis
    by (intro conjI) simp_all
qed

end
